theory Spec2Isabelle
  imports Main
begin

section \<open>The Models construct of lib/models/index.ts\<close>

text \<open>
  The class \<open>Models\<close> has one constructor and one private helper. The constructor reads
  the configuration, instantiates up to two SageMaker endpoints, serialises the list of
  descriptors into an SSM string parameter and, when asked, attaches a scheduler role with
  start and stop schedules. Every call into the CDK is an effect on the construct tree and
  may throw; the embedding threads the list of calls made so far and returns errors as
  values.
\<close>

subsection \<open>JavaScript built-ins used by the constructor\<close>

text \<open>
  \<open>String.prototype.split\<close> and \<open>Array.prototype.join\<close>. The source calls \<open>split\<close>
  only with the one-character separators "/" and ".", so the separator is a character.
  A string without the separator splits into the one-element array holding it, and a
  separator at the end leaves an empty last piece, as in JavaScript.
\<close>

fun split_from :: "char \<Rightarrow> string \<Rightarrow> string \<Rightarrow> string list" where
  "split_from sep cur [] = [cur]"
| "split_from sep cur (c # cs) =
     (if c = sep then cur # split_from sep [] cs else split_from sep (cur @ [c]) cs)"

definition String_split :: "char \<Rightarrow> string \<Rightarrow> string list" where
  "String_split sep s = split_from sep [] s"

fun Array_join :: "string \<Rightarrow> string list \<Rightarrow> string" where
  "Array_join sep [] = []"
| "Array_join sep [x] = x"
| "Array_join sep (x # y # ys) = x @ sep @ Array_join sep (y # ys)"

text \<open>
  The values \<open>JSON.stringify\<close> is applied to: \<open>undefined\<close>, booleans, integral numbers,
  strings, arrays and plain objects (a list of properties in insertion order).
\<close>

datatype js_value =
    JUndefined
  | JBoolean bool
  | JNumber int
  | JString string
  | JArray "js_value list"
  | JObject "(string \<times> js_value) list"

text \<open>
  \<open>Number.prototype.toString\<close> on an integer: decimal digits, a minus sign first
  (as JavaScript prints an integer of magnitude below 10^21; the constructor serialises
  10000, 24000 and 4).
\<close>

fun digits10 :: "nat \<Rightarrow> string" where
  "digits10 n =
     (if n < 10 then [char_of (48 + n)]
      else digits10 (n div 10) @ [char_of (48 + n mod 10)])"

declare digits10.simps [simp del]

definition Number_toString :: "int \<Rightarrow> string" where
  "Number_toString i = (if i < 0 then CHR ''-'' # digits10 (nat (- i)) else digits10 (nat i))"

text \<open>
  \<open>QuoteJSONString\<close>: the double quote and the backslash are escaped with a backslash,
  the control characters have their short escapes or \<open>\u00XX\<close> with lower-case digits.
\<close>

definition hex_digit :: "nat \<Rightarrow> char" where
  "hex_digit d = (if d < 10 then char_of (48 + d) else char_of (87 + d))"

definition escape_char :: "char \<Rightarrow> string" where
  "escape_char c =
     (if c = CHR 0x22 then [CHR 0x5C, CHR 0x22]
      else if c = CHR 0x5C then [CHR 0x5C, CHR 0x5C]
      else if c = CHR 0x08 then [CHR 0x5C, CHR ''b'']
      else if c = CHR 0x0C then [CHR 0x5C, CHR ''f'']
      else if c = CHR 0x0A then [CHR 0x5C, CHR ''n'']
      else if c = CHR 0x0D then [CHR 0x5C, CHR ''r'']
      else if c = CHR 0x09 then [CHR 0x5C, CHR ''t'']
      else if (of_char c :: nat) < 32
        then [CHR 0x5C, CHR ''u'', CHR ''0'', CHR ''0'',
              hex_digit ((of_char c :: nat) div 16), hex_digit ((of_char c :: nat) mod 16)]
      else [c])"

definition QuoteJSONString :: "string \<Rightarrow> string" where
  "QuoteJSONString s = [CHR 0x22] @ concat (map escape_char s) @ [CHR 0x22]"

text \<open>
  \<open>JSON.stringify\<close> with one argument. \<open>SerializeJSONProperty\<close> returns \<open>undefined\<close>
  (here \<open>None\<close>) for \<open>undefined\<close>; inside an array \<open>undefined\<close> is written \<open>null\<close>, and a
  property whose value is \<open>undefined\<close> is left out of its object.
\<close>

fun SerializeJSONProperty :: "js_value \<Rightarrow> string option"
  and SerializeJSONArray :: "js_value list \<Rightarrow> string list"
  and SerializeJSONObject :: "(string \<times> js_value) list \<Rightarrow> string list"
where
  "SerializeJSONProperty JUndefined = None"
| "SerializeJSONProperty (JBoolean b) = Some (if b then ''true'' else ''false'')"
| "SerializeJSONProperty (JNumber i) = Some (Number_toString i)"
| "SerializeJSONProperty (JString s) = Some (QuoteJSONString s)"
| "SerializeJSONProperty (JArray vs) =
     Some (''['' @ Array_join '','' (SerializeJSONArray vs) @ '']'')"
| "SerializeJSONProperty (JObject ps) =
     Some (''{'' @ Array_join '','' (SerializeJSONObject ps) @ ''}'')"
| "SerializeJSONArray [] = []"
| "SerializeJSONArray (v # vs) =
     (case SerializeJSONProperty v of None \<Rightarrow> ''null'' | Some s \<Rightarrow> s) # SerializeJSONArray vs"
| "SerializeJSONObject [] = []"
| "SerializeJSONObject (p # ps) =
     (case SerializeJSONProperty (snd p) of
        None \<Rightarrow> SerializeJSONObject ps
      | Some s \<Rightarrow> (QuoteJSONString (fst p) @ '':'' @ s) # SerializeJSONObject ps)"

definition JSON_stringify :: "js_value \<Rightarrow> string option" where
  "JSON_stringify v = SerializeJSONProperty v"

subsection \<open>Types of ../shared/types and of the CDK\<close>

text \<open>
  The module ../shared/types is not part of the sources at hand. Of each enumeration the
  members the constructor names are kept and every other member is one further
  constructor. The value an enumeration member has at run time (a string or a number)
  is a parameter of the embedding, see \<open>Externals\<close> below.
\<close>

datatype Modality = Text | OtherModality string

datatype ModelInterface = LangChain | OtherModelInterface string

datatype SupportedSageMakerModels = FalconLite2 | Zephyr7b | OtherSageMakerModel string

datatype enum_value = EnumString string | EnumNumber int

text \<open>
  The part of \<open>SystemConfig\<close> the constructor reads. Optional properties are options,
  \<open>None\<close> standing for \<open>undefined\<close>.
\<close>

record SagemakerSchedule =
  enabled :: "bool option"

record Llms =
  huggingfaceApiSecretArn :: "string option"
  sagemaker :: "SupportedSageMakerModels list"
  sagemakerSchedule :: "SagemakerSchedule option"

record SystemConfig =
  llms :: "Llms option"

record 'shared ModelsProps =
  config :: SystemConfig
  shared :: 'shared

text \<open>Objects handed back by the CDK, identified by the id of the construct they belong to.\<close>

datatype Secret = Secret string string

datatype Role = RoleOfEndpoint string | IamRole string

datatype ServicePrincipal = ServicePrincipal string

datatype ManagedPolicy = AwsManagedPolicy string

record CfnEndpoint =
  ownerId :: string
  endpointName :: "string option"

datatype JumpStartModel =
    HUGGINGFACE_LLM_AMAZON_FALCONLITE2_1_1_0
  | HUGGINGFACE_LLM_HUGGINGFACEH4_ZEPHYR_7B_BETA_1_1_0

datatype SageMakerInstanceType = ML_G5_48XLARGE | ML_G5_24XLARGE

record JumpStartSageMakerEndpointProps =
  model :: JumpStartModel
  instanceType :: SageMakerInstanceType
  instanceCount :: nat
  props_endpointName :: string
  environment :: "(string \<times> string option) list option"

record JumpStartSageMakerEndpoint =
  role :: Role
  cfnEndpoint :: CfnEndpoint

datatype NagPackSuppression = NagPackSuppression string string

record StringParameterProps =
  stringValue :: "string option"

datatype StringParameter = StringParameter string StringParameterProps

fun parameterProps :: "StringParameter \<Rightarrow> StringParameterProps" where
  "parameterProps (StringParameter i p) = p"

record RoleProps =
  assumedBy :: ServicePrincipal
  description :: string

text \<open>The model endpoint descriptor, \<open>SageMakerModelEndpoint\<close>.\<close>

record SageMakerModelEndpoint =
  name :: string
  endpoint :: CfnEndpoint
  responseStreamingSupported :: bool
  inputModalities :: "Modality list"
  outputModalities :: "Modality list"
  interface :: ModelInterface
  ragSupported :: bool

record Models =
  models :: "SageMakerModelEndpoint list"
  modelsParameter :: StringParameter

subsection \<open>Calls into the CDK, and errors\<close>

text \<open>
  Every call the constructor makes outside this file, with its arguments (the scope is
  always \<open>this\<close>, and is left out). The calls made so far, in order, are the state.
  The last two are the schedules that the helpers of ./sagemaker-schedule attach.
\<close>

datatype call =
    Construct_new string
  | Secret_fromSecretCompleteArn string string
  | JumpStartSageMakerEndpoint_new string JumpStartSageMakerEndpointProps
  | NagSuppressions_addResourceSuppressions Role "NagPackSuppression list" bool
  | StringParameter_new string StringParameterProps
  | ServicePrincipal_new string
  | Role_new string RoleProps
  | ManagedPolicy_fromAwsManagedPolicyName string
  | Role_addManagedPolicy Role ManagedPolicy
  | StartSchedule_new string CfnEndpoint Role SystemConfig
  | StopSchedule_new string CfnEndpoint Role SystemConfig

datatype error = TypeError string | Error string

text \<open>
  What the constructor does not own: whether a call throws (which may depend on the calls
  made before it, as a duplicate construct id does), the \<open>endpointName\<close> the CDK gives the
  \<open>CfnEndpoint\<close> of a new \<open>JumpStartSageMakerEndpoint\<close> (optional in the CDK's typing),
  and the run-time values of the enumeration members.
\<close>

record Externals =
  raises :: "call list \<Rightarrow> call \<Rightarrow> error option"
  cfnEndpointName :: "string \<Rightarrow> JumpStartSageMakerEndpointProps \<Rightarrow> string option"
  Modality_value :: "Modality \<Rightarrow> enum_value"
  ModelInterface_value :: "ModelInterface \<Rightarrow> enum_value"

type_synonym 'a action = "call list \<Rightarrow> error + ('a \<times> call list)"

definition return_action :: "'a \<Rightarrow> 'a action" where
  "return_action a tr = Inr (a, tr)"

definition throw :: "error \<Rightarrow> 'a action" where
  "throw e tr = Inl e"

definition bind_action :: "'a action \<Rightarrow> ('a \<Rightarrow> 'b action) \<Rightarrow> 'b action" where
  "bind_action m f tr = (case m tr of Inl e \<Rightarrow> Inl e | Inr (a, tr') \<Rightarrow> f a tr')"

definition perform :: "Externals \<Rightarrow> call \<Rightarrow> 'a \<Rightarrow> 'a action" where
  "perform ext c a tr = (case raises ext tr c of Some e \<Rightarrow> Inl e | None \<Rightarrow> Inr (a, tr @ [c]))"

subsection \<open>The constructor\<close>

text \<open>\<open>Array.prototype.includes\<close>.\<close>

definition Array_includes :: "'a list \<Rightarrow> 'a \<Rightarrow> bool" where
  "Array_includes xs x = (x \<in> set xs)"

text \<open>\<open>props.config.llms?.sagemaker.includes(m)\<close>: \<open>undefined\<close>, hence falsy, without \<open>llms\<close>.\<close>

definition sagemaker_includes :: "SystemConfig \<Rightarrow> SupportedSageMakerModels \<Rightarrow> bool" where
  "sagemaker_includes cfg m =
     (case llms cfg of None \<Rightarrow> False | Some l \<Rightarrow> Array_includes (sagemaker l) m)"

text \<open>\<open>props.config.llms?.sagemakerSchedule?.enabled\<close>, as a condition.\<close>

definition sagemakerSchedule_enabled :: "SystemConfig \<Rightarrow> bool" where
  "sagemakerSchedule_enabled cfg =
     (case llms cfg of
        None \<Rightarrow> False
      | Some l \<Rightarrow> (case sagemakerSchedule l of None \<Rightarrow> False | Some s \<Rightarrow> enabled s = Some True))"

definition new_JumpStartSageMakerEndpoint ::
  "Externals \<Rightarrow> string \<Rightarrow> JumpStartSageMakerEndpointProps \<Rightarrow> JumpStartSageMakerEndpoint action"
where
  "new_JumpStartSageMakerEndpoint ext i p =
     perform ext (JumpStartSageMakerEndpoint_new i p)
       \<lparr>role = RoleOfEndpoint i,
        cfnEndpoint = \<lparr>ownerId = i, endpointName = cfnEndpointName ext i p\<rparr>\<rparr>"

definition suppressCdkNagWarningForEndpointRole :: "Externals \<Rightarrow> Role \<Rightarrow> unit action" where
  "suppressCdkNagWarningForEndpointRole ext r =
     perform ext
       (NagSuppressions_addResourceSuppressions r
          [NagPackSuppression ''AwsSolutions-IAM4''
             ''Gives user ability to deploy and delete endpoints from the UI.'',
           NagPackSuppression ''AwsSolutions-IAM5''
             ''Gives user ability to deploy and delete endpoints from the UI.'']
          True)
       ()"

text \<open>
  Modelled from the spec: createStartSchedule and createStopSchedule of
  ./sagemaker-schedule are not part of the sources at hand. The spec says that start and
  stop scheduling resources are attached; each helper is taken to attach the one schedule
  its name says, for the endpoint and with the role it is given.
\<close>

definition createStartSchedule ::
  "Externals \<Rightarrow> string \<Rightarrow> CfnEndpoint \<Rightarrow> Role \<Rightarrow> SystemConfig \<Rightarrow> unit action"
where
  "createStartSchedule ext i ep r cfg = perform ext (StartSchedule_new i ep r cfg) ()"

definition createStopSchedule ::
  "Externals \<Rightarrow> string \<Rightarrow> CfnEndpoint \<Rightarrow> Role \<Rightarrow> SystemConfig \<Rightarrow> unit action"
where
  "createStopSchedule ext i ep r cfg = perform ext (StopSchedule_new i ep r cfg) ()"

text \<open>
  Lines 39 to 42. Reading \<open>huggingfaceApiSecretArn\<close> of an undefined \<open>llms\<close> is a
  TypeError of the language. As a condition, \<open>undefined\<close> and the empty string are falsy.
  The secret that is looked up is not used afterwards.
\<close>

definition hfTokenSecret_block :: "Externals \<Rightarrow> SystemConfig \<Rightarrow> Secret option action" where
  "hfTokenSecret_block ext cfg =
     (case llms cfg of
        None \<Rightarrow> throw (TypeError ''Cannot read properties of undefined (reading 'huggingfaceApiSecretArn')'')
      | Some l \<Rightarrow>
          (case huggingfaceApiSecretArn l of
             None \<Rightarrow> return_action None
           | Some arn \<Rightarrow>
               if arn = [] then return_action None
               else perform ext (Secret_fromSecretCompleteArn ''HFTokenSecret'' arn)
                      (Some (Secret ''HFTokenSecret'' arn))))"

text \<open>\<open>MODEL_ID.split("/").join("-").split(".").join("-")\<close>, written twice in the source.\<close>

definition ENDPOINT_NAME :: "string \<Rightarrow> string" where
  "ENDPOINT_NAME MODEL_ID =
     Array_join ''-'' (String_split (CHR ''.'') (Array_join ''-'' (String_split (CHR ''/'') MODEL_ID)))"

definition FALCON_LITE_2_MODEL_ID :: string where
  "FALCON_LITE_2_MODEL_ID = ''Amazon/FalconLite2''"

definition FALCON_LITE_2_ENDPOINT_NAME :: string where
  "FALCON_LITE_2_ENDPOINT_NAME = ENDPOINT_NAME FALCON_LITE_2_MODEL_ID"

definition ZEPHYR_7B_MODEL_ID :: string where
  "ZEPHYR_7B_MODEL_ID = ''HuggingFaceH4/zephyr-7b-beta''"

definition ZEPHYR_7B_ENDPOINT_NAME :: string where
  "ZEPHYR_7B_ENDPOINT_NAME = ENDPOINT_NAME ZEPHYR_7B_MODEL_ID"

text \<open>Lines 44 to 80: the FalconLite2 endpoint and its descriptor.\<close>

definition falcon_block ::
  "Externals \<Rightarrow> SystemConfig \<Rightarrow> SageMakerModelEndpoint list \<Rightarrow> SageMakerModelEndpoint list action"
where
  "falcon_block ext cfg ms =
     (if sagemaker_includes cfg FalconLite2 then
        bind_action
          (new_JumpStartSageMakerEndpoint ext ''Falcon-Lite2''
             \<lparr>model = HUGGINGFACE_LLM_AMAZON_FALCONLITE2_1_1_0,
              instanceType = ML_G5_48XLARGE,
              instanceCount = 3,
              props_endpointName = FALCON_LITE_2_ENDPOINT_NAME,
              environment = Some
                [(''MAX_INPUT_TOKENS'', JSON_stringify (JNumber 10000)),
                 (''MAX_TOTAL_TOKENS'', JSON_stringify (JNumber 24000)),
                 (''MAX_BATCH_TOTAL_TOKENS'', JSON_stringify (JNumber 24000)),
                 (''SM_NUM_GPUS'', JSON_stringify (JNumber 4)),
                 (''MAX_CONCURRENT_REQUESTS'', JSON_stringify (JNumber 4)),
                 (''SAGEMAKER_STREAMING_ENABLED'', Some ''true''),
                 (''SAGEMAKER_CONTAINER_LOG_LEVEL'', Some ''INFO'')]\<rparr>)
          (\<lambda>falcon_lite_2.
        bind_action (suppressCdkNagWarningForEndpointRole ext (role falcon_lite_2))
          (\<lambda>_.
        return_action
          (ms @ [\<lparr>name = ''jumpstart-'' @ FALCON_LITE_2_ENDPOINT_NAME,
                  endpoint = cfnEndpoint falcon_lite_2,
                  responseStreamingSupported = True,
                  inputModalities = [Text],
                  outputModalities = [Text],
                  interface = LangChain,
                  ragSupported = True\<rparr>])))
      else return_action ms)"

text \<open>Lines 83 to 110: the Zephyr7b endpoint and its descriptor.\<close>

definition zephyr_block ::
  "Externals \<Rightarrow> SystemConfig \<Rightarrow> SageMakerModelEndpoint list \<Rightarrow> SageMakerModelEndpoint list action"
where
  "zephyr_block ext cfg ms =
     (if sagemaker_includes cfg Zephyr7b then
        bind_action
          (new_JumpStartSageMakerEndpoint ext ''Zephyr7b''
             \<lparr>model = HUGGINGFACE_LLM_HUGGINGFACEH4_ZEPHYR_7B_BETA_1_1_0,
              instanceType = ML_G5_24XLARGE,
              instanceCount = 3,
              props_endpointName = ZEPHYR_7B_ENDPOINT_NAME,
              environment = None\<rparr>)
          (\<lambda>zephyr7b.
        bind_action (suppressCdkNagWarningForEndpointRole ext (role zephyr7b))
          (\<lambda>_.
        return_action
          (ms @ [\<lparr>name = ''jumpstart-'' @ ZEPHYR_7B_ENDPOINT_NAME,
                  endpoint = cfnEndpoint zephyr7b,
                  responseStreamingSupported = False,
                  inputModalities = [Text],
                  outputModalities = [Text],
                  interface = LangChain,
                  ragSupported = True\<rparr>])))
      else return_action ms)"

text \<open>Lines 114 to 122: the object each descriptor is mapped to before serialisation.\<close>

definition enum_js :: "enum_value \<Rightarrow> js_value" where
  "enum_js v = (case v of EnumString s \<Rightarrow> JString s | EnumNumber n \<Rightarrow> JNumber n)"

definition model_object :: "Externals \<Rightarrow> SageMakerModelEndpoint \<Rightarrow> js_value" where
  "model_object ext m =
     JObject
       [(''name'', JString (name m)),
        (''endpoint'',
           (case endpointName (endpoint m) of None \<Rightarrow> JUndefined | Some n \<Rightarrow> JString n)),
        (''responseStreamingSupported'', JBoolean (responseStreamingSupported m)),
        (''inputModalities'', JArray (map (\<lambda>x. enum_js (Modality_value ext x)) (inputModalities m))),
        (''outputModalities'', JArray (map (\<lambda>x. enum_js (Modality_value ext x)) (outputModalities m))),
        (''interface'', enum_js (ModelInterface_value ext (interface m))),
        (''ragSupported'', JBoolean (ragSupported m))]"

definition new_StringParameter ::
  "Externals \<Rightarrow> string \<Rightarrow> StringParameterProps \<Rightarrow> StringParameter action"
where
  "new_StringParameter ext i p = perform ext (StringParameter_new i p) (StringParameter i p)"

text \<open>Lines 139 to 142: \<open>models.forEach\<close>.\<close>

fun forEach_schedules ::
  "Externals \<Rightarrow> string \<Rightarrow> Role \<Rightarrow> SystemConfig \<Rightarrow> SageMakerModelEndpoint list \<Rightarrow> unit action"
where
  "forEach_schedules ext i r cfg [] = return_action ()"
| "forEach_schedules ext i r cfg (m # ms) =
     bind_action (createStartSchedule ext i (endpoint m) r cfg)
       (\<lambda>_.
     bind_action (createStopSchedule ext i (endpoint m) r cfg)
       (\<lambda>_.
     forEach_schedules ext i r cfg ms))"

text \<open>Lines 129 to 143: the scheduler role and the schedules.\<close>

definition schedule_block ::
  "Externals \<Rightarrow> string \<Rightarrow> SystemConfig \<Rightarrow> SageMakerModelEndpoint list \<Rightarrow> unit action"
where
  "schedule_block ext i cfg ms =
     (if length ms > 0 \<and> sagemakerSchedule_enabled cfg then
        bind_action
          (perform ext (ServicePrincipal_new ''scheduler.amazonaws.com'')
             (ServicePrincipal ''scheduler.amazonaws.com''))
          (\<lambda>principal.
        bind_action
          (perform ext
             (Role_new ''SchedulerRole''
                \<lparr>assumedBy = principal,
                 description = ''Role for Scheduler to interact with SageMaker''\<rparr>)
             (IamRole ''SchedulerRole''))
          (\<lambda>schedulerRole.
        bind_action
          (perform ext (ManagedPolicy_fromAwsManagedPolicyName ''AmazonSageMakerFullAccess'')
             (AwsManagedPolicy ''AmazonSageMakerFullAccess''))
          (\<lambda>policy.
        bind_action (perform ext (Role_addManagedPolicy schedulerRole policy) ())
          (\<lambda>_.
        bind_action (suppressCdkNagWarningForEndpointRole ext schedulerRole)
          (\<lambda>_.
        forEach_schedules ext i schedulerRole cfg ms)))))
      else return_action ())"

text \<open>
  The constructor, lines 34 to 144, as an action on the calls made so far; \<open>new_Models\<close>
  runs it from no calls and returns the object with the calls it made.
\<close>

definition Models_constructor ::
  "Externals \<Rightarrow> string \<Rightarrow> 'shared ModelsProps \<Rightarrow> Models action"
where
  "Models_constructor ext i props =
     bind_action (perform ext (Construct_new i) ())
       (\<lambda>_.
     bind_action (hfTokenSecret_block ext (config props))
       (\<lambda>hfTokenSecret.
     bind_action (falcon_block ext (config props) [])
       (\<lambda>ms.
     bind_action (zephyr_block ext (config props) ms)
       (\<lambda>ms.
     bind_action
       (new_StringParameter ext ''ModelsParameter''
          \<lparr>stringValue = JSON_stringify (JArray (map (model_object ext) ms))\<rparr>)
       (\<lambda>parameter.
     bind_action (schedule_block ext i (config props) ms)
       (\<lambda>_.
     return_action \<lparr>models = ms, modelsParameter = parameter\<rparr>))))))"

definition new_Models ::
  "Externals \<Rightarrow> string \<Rightarrow> 'shared ModelsProps \<Rightarrow> error + (Models \<times> call list)"
where
  "new_Models ext i props = Models_constructor ext i props []"

subsection \<open>What a run leaves behind\<close>

text \<open>
  The resources a run created are read off the calls it made: the IAM roles, the start
  and stop schedules (each with the endpoint and the role it refers to) and the string
  parameters.
\<close>

definition roles_created :: "call list \<Rightarrow> (string \<times> RoleProps) list" where
  "roles_created tr = List.map_filter (\<lambda>c. case c of Role_new i p \<Rightarrow> Some (i, p) | _ \<Rightarrow> None) tr"

definition start_schedules :: "call list \<Rightarrow> (CfnEndpoint \<times> Role) list" where
  "start_schedules tr =
     List.map_filter (\<lambda>c. case c of StartSchedule_new i ep r cfg \<Rightarrow> Some (ep, r) | _ \<Rightarrow> None) tr"

definition stop_schedules :: "call list \<Rightarrow> (CfnEndpoint \<times> Role) list" where
  "stop_schedules tr =
     List.map_filter (\<lambda>c. case c of StopSchedule_new i ep r cfg \<Rightarrow> Some (ep, r) | _ \<Rightarrow> None) tr"

definition string_parameters :: "call list \<Rightarrow> (string \<times> StringParameterProps) list" where
  "string_parameters tr =
     List.map_filter (\<lambda>c. case c of StringParameter_new i p \<Rightarrow> Some (i, p) | _ \<Rightarrow> None) tr"

text \<open>
  The first error a sequence of calls meets when it is made after the calls \<open>before\<close>,
  and the sequences all of whose calls went through.
\<close>

fun first_throw :: "Externals \<Rightarrow> call list \<Rightarrow> call list \<Rightarrow> error option" where
  "first_throw ext before [] = None"
| "first_throw ext before (c # cs) =
     (case raises ext before c of Some e \<Rightarrow> Some e | None \<Rightarrow> first_throw ext (before @ [c]) cs)"

definition accepted :: "Externals \<Rightarrow> call list \<Rightarrow> bool" where
  "accepted ext tr = (first_throw ext [] tr = None)"

text \<open>
  The keys of the serialised descriptor named by the spec, and the keys \<open>JSON.stringify\<close>
  writes for an object: those whose value is not \<open>undefined\<close>.
\<close>

definition descriptor_keys :: "string list" where
  "descriptor_keys =
     [''name'', ''endpoint'', ''responseStreamingSupported'', ''inputModalities'',
      ''outputModalities'', ''interface'', ''ragSupported'']"

definition serialized_keys :: "(string \<times> js_value) list \<Rightarrow> string list" where
  "serialized_keys ps = map fst (filter (\<lambda>p. SerializeJSONProperty (snd p) \<noteq> None) ps)"

fun properties_of :: "js_value \<Rightarrow> (string \<times> js_value) list" where
  "properties_of (JObject ps) = ps"
| "properties_of v = []"

text \<open>
  The derivation of the name in the words of the spec: every "/" and every "." of the
  model identifier becomes "-".
\<close>

definition replace_separators :: "string \<Rightarrow> string" where
  "replace_separators s = map (\<lambda>c. if c = CHR ''/'' \<or> c = CHR ''.'' then CHR ''-'' else c) s"

subsection \<open>The calls and the result of a run, in closed form\<close>

text \<open>
  The arguments of the two endpoint constructions, the two descriptors, and the calls of
  each block of the constructor, spelled out as plain values. The constructor is shown
  below to make exactly these calls, and to stop at the first one that throws.
\<close>

definition Falcon_Lite2_props :: JumpStartSageMakerEndpointProps where
  "Falcon_Lite2_props =
     \<lparr>model = HUGGINGFACE_LLM_AMAZON_FALCONLITE2_1_1_0,
      instanceType = ML_G5_48XLARGE,
      instanceCount = 3,
      props_endpointName = FALCON_LITE_2_ENDPOINT_NAME,
      environment = Some
        [(''MAX_INPUT_TOKENS'', JSON_stringify (JNumber 10000)),
         (''MAX_TOTAL_TOKENS'', JSON_stringify (JNumber 24000)),
         (''MAX_BATCH_TOTAL_TOKENS'', JSON_stringify (JNumber 24000)),
         (''SM_NUM_GPUS'', JSON_stringify (JNumber 4)),
         (''MAX_CONCURRENT_REQUESTS'', JSON_stringify (JNumber 4)),
         (''SAGEMAKER_STREAMING_ENABLED'', Some ''true''),
         (''SAGEMAKER_CONTAINER_LOG_LEVEL'', Some ''INFO'')]\<rparr>"

definition Zephyr7b_props :: JumpStartSageMakerEndpointProps where
  "Zephyr7b_props =
     \<lparr>model = HUGGINGFACE_LLM_HUGGINGFACEH4_ZEPHYR_7B_BETA_1_1_0,
      instanceType = ML_G5_24XLARGE,
      instanceCount = 3,
      props_endpointName = ZEPHYR_7B_ENDPOINT_NAME,
      environment = None\<rparr>"

definition falcon_descriptor :: "Externals \<Rightarrow> SageMakerModelEndpoint" where
  "falcon_descriptor ext =
     \<lparr>name = ''jumpstart-'' @ FALCON_LITE_2_ENDPOINT_NAME,
      endpoint = \<lparr>ownerId = ''Falcon-Lite2'',
                  endpointName = cfnEndpointName ext ''Falcon-Lite2'' Falcon_Lite2_props\<rparr>,
      responseStreamingSupported = True,
      inputModalities = [Text],
      outputModalities = [Text],
      interface = LangChain,
      ragSupported = True\<rparr>"

definition zephyr_descriptor :: "Externals \<Rightarrow> SageMakerModelEndpoint" where
  "zephyr_descriptor ext =
     \<lparr>name = ''jumpstart-'' @ ZEPHYR_7B_ENDPOINT_NAME,
      endpoint = \<lparr>ownerId = ''Zephyr7b'',
                  endpointName = cfnEndpointName ext ''Zephyr7b'' Zephyr7b_props\<rparr>,
      responseStreamingSupported = False,
      inputModalities = [Text],
      outputModalities = [Text],
      interface = LangChain,
      ragSupported = True\<rparr>"

definition suppression_call :: "Role \<Rightarrow> call" where
  "suppression_call r =
     NagSuppressions_addResourceSuppressions r
       [NagPackSuppression ''AwsSolutions-IAM4''
          ''Gives user ability to deploy and delete endpoints from the UI.'',
        NagPackSuppression ''AwsSolutions-IAM5''
          ''Gives user ability to deploy and delete endpoints from the UI.'']
       True"

definition expected_models :: "Externals \<Rightarrow> SystemConfig \<Rightarrow> SageMakerModelEndpoint list" where
  "expected_models ext cfg =
     (if sagemaker_includes cfg FalconLite2 then [falcon_descriptor ext] else []) @
     (if sagemaker_includes cfg Zephyr7b then [zephyr_descriptor ext] else [])"

definition secret_calls :: "SystemConfig \<Rightarrow> call list" where
  "secret_calls cfg =
     (case llms cfg of
        None \<Rightarrow> []
      | Some l \<Rightarrow>
          (case huggingfaceApiSecretArn l of
             None \<Rightarrow> []
           | Some arn \<Rightarrow>
               if arn = [] then [] else [Secret_fromSecretCompleteArn ''HFTokenSecret'' arn]))"

definition endpoint_calls :: "SystemConfig \<Rightarrow> call list" where
  "endpoint_calls cfg =
     (if sagemaker_includes cfg FalconLite2
      then [JumpStartSageMakerEndpoint_new ''Falcon-Lite2'' Falcon_Lite2_props,
            suppression_call (RoleOfEndpoint ''Falcon-Lite2'')]
      else []) @
     (if sagemaker_includes cfg Zephyr7b
      then [JumpStartSageMakerEndpoint_new ''Zephyr7b'' Zephyr7b_props,
            suppression_call (RoleOfEndpoint ''Zephyr7b'')]
      else [])"

fun model_schedule_calls ::
  "string \<Rightarrow> Role \<Rightarrow> SystemConfig \<Rightarrow> SageMakerModelEndpoint list \<Rightarrow> call list"
where
  "model_schedule_calls i r cfg [] = []"
| "model_schedule_calls i r cfg (m # ms) =
     StartSchedule_new i (endpoint m) r cfg # StopSchedule_new i (endpoint m) r cfg #
     model_schedule_calls i r cfg ms"

definition scheduler_calls :: "string \<Rightarrow> SystemConfig \<Rightarrow> SageMakerModelEndpoint list \<Rightarrow> call list" where
  "scheduler_calls i cfg ms =
     (if ms \<noteq> [] \<and> sagemakerSchedule_enabled cfg
      then [ServicePrincipal_new ''scheduler.amazonaws.com'',
            Role_new ''SchedulerRole''
              \<lparr>assumedBy = ServicePrincipal ''scheduler.amazonaws.com'',
               description = ''Role for Scheduler to interact with SageMaker''\<rparr>,
            ManagedPolicy_fromAwsManagedPolicyName ''AmazonSageMakerFullAccess'',
            Role_addManagedPolicy (IamRole ''SchedulerRole'') (AwsManagedPolicy ''AmazonSageMakerFullAccess''),
            suppression_call (IamRole ''SchedulerRole'')] @
           model_schedule_calls i (IamRole ''SchedulerRole'') cfg ms
      else [])"

definition parameter_props :: "Externals \<Rightarrow> SageMakerModelEndpoint list \<Rightarrow> StringParameterProps" where
  "parameter_props ext ms = \<lparr>stringValue = JSON_stringify (JArray (map (model_object ext) ms))\<rparr>"

definition expected_calls :: "Externals \<Rightarrow> string \<Rightarrow> SystemConfig \<Rightarrow> call list" where
  "expected_calls ext i cfg =
     Construct_new i # secret_calls cfg @ endpoint_calls cfg @
     StringParameter_new ''ModelsParameter'' (parameter_props ext (expected_models ext cfg)) #
     scheduler_calls i cfg (expected_models ext cfg)"

definition expected_this :: "Externals \<Rightarrow> SystemConfig \<Rightarrow> Models" where
  "expected_this ext cfg =
     \<lparr>models = expected_models ext cfg,
      modelsParameter =
        StringParameter ''ModelsParameter'' (parameter_props ext (expected_models ext cfg))\<rparr>"

text \<open>
  The calls the constructor sets out to make: without \<open>llms\<close> it gets no further than
  the call of \<open>super\<close>.
\<close>

definition constructor_calls :: "Externals \<Rightarrow> string \<Rightarrow> SystemConfig \<Rightarrow> call list" where
  "constructor_calls ext i cfg =
     (case llms cfg of None \<Rightarrow> [Construct_new i] | Some l \<Rightarrow> expected_calls ext i cfg)"

definition run :: "Externals \<Rightarrow> call list \<Rightarrow> 'a \<Rightarrow> 'a action" where
  "run ext cs a tr = (case first_throw ext tr cs of Some e \<Rightarrow> Inl e | None \<Rightarrow> Inr (a, tr @ cs))"

subsection \<open>Example environments and configurations\<close>

text \<open>
  An environment in which no call throws, with example endpoint names and enumeration
  values, one in which the lookup of the secret is refused, and one in which the
  construct itself is refused.
\<close>

definition example_cdk :: Externals where
  "example_cdk =
     \<lparr>raises = (\<lambda>tr c. None),
      cfnEndpointName = (\<lambda>i p. Some (''jumpstart-'' @ props_endpointName p)),
      Modality_value = (\<lambda>m. case m of Text \<Rightarrow> EnumString ''TEXT'' | OtherModality s \<Rightarrow> EnumString s),
      ModelInterface_value =
        (\<lambda>v. case v of LangChain \<Rightarrow> EnumString ''langchain'' | OtherModelInterface s \<Rightarrow> EnumString s)\<rparr>"

definition example_failing_cdk :: Externals where
  "example_failing_cdk =
     example_cdk
       \<lparr>raises :=
          (\<lambda>tr c. case c of
                     Secret_fromSecretCompleteArn i arn \<Rightarrow> Some (Error ''ARN is not valid'')
                   | _ \<Rightarrow> None)\<rparr>"

definition example_refusing_cdk :: Externals where
  "example_refusing_cdk =
     example_cdk
       \<lparr>raises :=
          (\<lambda>tr c. case c of
                     Construct_new i \<Rightarrow> Some (Error ''There is already a Construct with this name'')
                   | _ \<Rightarrow> None)\<rparr>"

definition example_both :: "unit ModelsProps" where
  "example_both =
     \<lparr>config =
        \<lparr>llms = Some
           \<lparr>huggingfaceApiSecretArn = Some ''arn:aws:secretsmanager:eu-west-1:111122223333:secret:hf-token'',
            sagemaker = [FalconLite2, Zephyr7b],
            sagemakerSchedule = Some \<lparr>enabled = Some True\<rparr>\<rparr>\<rparr>,
      shared = ()\<rparr>"

definition example_both_other_secret :: "unit ModelsProps" where
  "example_both_other_secret =
     \<lparr>config =
        \<lparr>llms = Some
           \<lparr>huggingfaceApiSecretArn = None,
            sagemaker = [FalconLite2, Zephyr7b],
            sagemakerSchedule = Some \<lparr>enabled = Some True\<rparr>\<rparr>\<rparr>,
      shared = ()\<rparr>"

definition example_zephyr :: "unit ModelsProps" where
  "example_zephyr =
     \<lparr>config =
        \<lparr>llms = Some
           \<lparr>huggingfaceApiSecretArn = Some [],
            sagemaker = [Zephyr7b],
            sagemakerSchedule = None\<rparr>\<rparr>,
      shared = ()\<rparr>"

definition example_none :: "unit ModelsProps" where
  "example_none =
     \<lparr>config =
        \<lparr>llms = Some
           \<lparr>huggingfaceApiSecretArn = None,
            sagemaker = [OtherSageMakerModel ''Llama2_13b_Chat''],
            sagemakerSchedule = Some \<lparr>enabled = Some True\<rparr>\<rparr>\<rparr>,
      shared = ()\<rparr>"

definition example_scheduled_without_models :: "unit ModelsProps" where
  "example_scheduled_without_models =
     \<lparr>config =
        \<lparr>llms = Some
           \<lparr>huggingfaceApiSecretArn = None,
            sagemaker = [],
            sagemakerSchedule = Some \<lparr>enabled = Some True\<rparr>\<rparr>\<rparr>,
      shared = ()\<rparr>"

definition example_without_llms :: "unit ModelsProps" where
  "example_without_llms = \<lparr>config = \<lparr>llms = None\<rparr>, shared = ()\<rparr>"

section \<open>Properties\<close>

subsection \<open>The built-ins\<close>

lemma split_from_not_Nil: "split_from sep cur s \<noteq> []"
  by (induction s arbitrary: cur) simp_all

lemma split_from_join:
  "Array_join [r] (split_from sep cur s) = cur @ map (\<lambda>c. if c = sep then r else c) s"
proof (induction s arbitrary: cur)
  case Nil
  then show ?case by simp
next
  case (Cons c s)
  show ?case
  proof (cases "c = sep")
    case True
    obtain p ps where ps: "split_from sep [] s = p # ps"
      using split_from_not_Nil [of sep "[]" s] by (cases "split_from sep [] s") auto
    have "Array_join [r] (cur # split_from sep [] s) = cur @ [r] @ Array_join [r] (split_from sep [] s)"
      by (simp add: ps)
    with True Cons.IH [of "[]"] show ?thesis by simp
  next
    case False
    with Cons.IH [of "cur @ [c]"] show ?thesis by simp
  qed
qed

lemma ENDPOINT_NAME_replace: "ENDPOINT_NAME s = replace_separators s"
  by (simp add: ENDPOINT_NAME_def String_split_def split_from_join [of "CHR ''-''", simplified]
      replace_separators_def)

lemma FALCON_LITE_2_ENDPOINT_NAME_value: "FALCON_LITE_2_ENDPOINT_NAME = ''Amazon-FalconLite2''"
  by (simp add: FALCON_LITE_2_ENDPOINT_NAME_def FALCON_LITE_2_MODEL_ID_def ENDPOINT_NAME_replace
      replace_separators_def)

lemma ZEPHYR_7B_ENDPOINT_NAME_value: "ZEPHYR_7B_ENDPOINT_NAME = ''HuggingFaceH4-zephyr-7b-beta''"
  by (simp add: ZEPHYR_7B_ENDPOINT_NAME_def ZEPHYR_7B_MODEL_ID_def ENDPOINT_NAME_replace
      replace_separators_def)

lemma SerializeJSONObject_keys:
  "SerializeJSONObject ps =
     map (\<lambda>p. QuoteJSONString (fst p) @ '':'' @ the (SerializeJSONProperty (snd p)))
       (filter (\<lambda>p. SerializeJSONProperty (snd p) \<noteq> None) ps)"
  by (induction ps) (auto split: option.splits)

subsection \<open>Reading a list of calls\<close>

lemma map_filter_append: "List.map_filter f (xs @ ys) = List.map_filter f xs @ List.map_filter f ys"
  by (simp add: List.map_filter_def)

lemma observe_append:
  "roles_created (xs @ ys) = roles_created xs @ roles_created ys"
  "start_schedules (xs @ ys) = start_schedules xs @ start_schedules ys"
  "stop_schedules (xs @ ys) = stop_schedules xs @ stop_schedules ys"
  "string_parameters (xs @ ys) = string_parameters xs @ string_parameters ys"
  by (simp_all add: roles_created_def start_schedules_def stop_schedules_def
      string_parameters_def map_filter_append)

lemma observe_Nil:
  "roles_created [] = []" "start_schedules [] = []" "stop_schedules [] = []"
  "string_parameters [] = []"
  by (simp_all add: roles_created_def start_schedules_def stop_schedules_def
      string_parameters_def List.map_filter_def)

lemma observe_Cons:
  "roles_created (c # tr) =
     (case c of Role_new i p \<Rightarrow> (i, p) # roles_created tr | _ \<Rightarrow> roles_created tr)"
  "start_schedules (c # tr) =
     (case c of StartSchedule_new i ep r cfg \<Rightarrow> (ep, r) # start_schedules tr | _ \<Rightarrow> start_schedules tr)"
  "stop_schedules (c # tr) =
     (case c of StopSchedule_new i ep r cfg \<Rightarrow> (ep, r) # stop_schedules tr | _ \<Rightarrow> stop_schedules tr)"
  "string_parameters (c # tr) =
     (case c of StringParameter_new i p \<Rightarrow> (i, p) # string_parameters tr | _ \<Rightarrow> string_parameters tr)"
  by (simp_all add: roles_created_def start_schedules_def stop_schedules_def
      string_parameters_def List.map_filter_def split: call.splits)

lemmas observe = observe_Nil observe_Cons

lemma model_schedule_calls_observe:
  "roles_created (model_schedule_calls i r cfg ms) = []"
  "string_parameters (model_schedule_calls i r cfg ms) = []"
  "start_schedules (model_schedule_calls i r cfg ms) = map (\<lambda>m. (endpoint m, r)) ms"
  "stop_schedules (model_schedule_calls i r cfg ms) = map (\<lambda>m. (endpoint m, r)) ms"
  by (induction ms) (simp_all add: observe)

lemma secret_calls_observe:
  "roles_created (secret_calls cfg) = []" "start_schedules (secret_calls cfg) = []"
  "stop_schedules (secret_calls cfg) = []" "string_parameters (secret_calls cfg) = []"
  by (simp_all add: secret_calls_def observe split: option.splits)

lemma endpoint_calls_observe:
  "roles_created (endpoint_calls cfg) = []" "start_schedules (endpoint_calls cfg) = []"
  "stop_schedules (endpoint_calls cfg) = []" "string_parameters (endpoint_calls cfg) = []"
  by (simp_all add: endpoint_calls_def suppression_call_def observe)

lemma scheduler_calls_observe:
  "roles_created (scheduler_calls i cfg ms) =
     (if ms \<noteq> [] \<and> sagemakerSchedule_enabled cfg
      then [(''SchedulerRole'',
             \<lparr>assumedBy = ServicePrincipal ''scheduler.amazonaws.com'',
              description = ''Role for Scheduler to interact with SageMaker''\<rparr>)]
      else [])"
  "start_schedules (scheduler_calls i cfg ms) =
     (if ms \<noteq> [] \<and> sagemakerSchedule_enabled cfg
      then map (\<lambda>m. (endpoint m, IamRole ''SchedulerRole'')) ms else [])"
  "stop_schedules (scheduler_calls i cfg ms) =
     (if ms \<noteq> [] \<and> sagemakerSchedule_enabled cfg
      then map (\<lambda>m. (endpoint m, IamRole ''SchedulerRole'')) ms else [])"
  "string_parameters (scheduler_calls i cfg ms) = []"
  by (simp_all add: scheduler_calls_def suppression_call_def observe model_schedule_calls_observe)

lemma expected_calls_observe:
  "roles_created (expected_calls ext i cfg) =
     roles_created (scheduler_calls i cfg (expected_models ext cfg))"
  "start_schedules (expected_calls ext i cfg) =
     start_schedules (scheduler_calls i cfg (expected_models ext cfg))"
  "stop_schedules (expected_calls ext i cfg) =
     stop_schedules (scheduler_calls i cfg (expected_models ext cfg))"
  "string_parameters (expected_calls ext i cfg) =
     [(''ModelsParameter'', parameter_props ext (expected_models ext cfg))]"
  by (simp_all add: expected_calls_def observe observe_append secret_calls_observe
      endpoint_calls_observe scheduler_calls_observe)

subsection \<open>The constructor makes the expected calls and stops at the first error\<close>

lemma first_throw_append:
  "first_throw ext before (cs @ ds) =
     (case first_throw ext before cs of Some e \<Rightarrow> Some e | None \<Rightarrow> first_throw ext (before @ cs) ds)"
  by (induction cs arbitrary: before) (simp_all split: option.splits)

lemma first_throw_Some:
  "first_throw ext before cs = Some e \<Longrightarrow>
     \<exists>xs c rest. cs = xs @ c # rest \<and> first_throw ext before xs = None \<and>
       raises ext (before @ xs) c = Some e"
proof (induction cs arbitrary: before)
  case Nil
  then show ?case by simp
next
  case (Cons c cs)
  show ?case
  proof (cases "raises ext before c")
    case None
    with Cons.prems have "first_throw ext (before @ [c]) cs = Some e" by simp
    from Cons.IH [OF this] obtain xs d rest where
      "cs = xs @ d # rest" "first_throw ext (before @ [c]) xs = None"
      "raises ext ((before @ [c]) @ xs) d = Some e"
      by blast
    with None have "c # cs = (c # xs) @ d # rest \<and> first_throw ext before (c # xs) = None \<and>
        raises ext (before @ c # xs) d = Some e"
      by simp
    then show ?thesis by blast
  next
    case (Some e')
    with Cons.prems have "e' = e" by simp
    with Some have "c # cs = [] @ c # cs \<and> first_throw ext before [] = None \<and>
        raises ext (before @ []) c = Some e"
      by simp
    then show ?thesis by blast
  qed
qed

lemma hfTokenSecret_block_run:
  "llms cfg \<noteq> None \<Longrightarrow> \<exists>s. hfTokenSecret_block ext cfg = run ext (secret_calls cfg) s"
  by (auto simp: hfTokenSecret_block_def secret_calls_def run_def return_action_def perform_def
        fun_eq_iff split: option.splits)

lemma falcon_block_run:
  "falcon_block ext cfg ms =
     run ext
       (if sagemaker_includes cfg FalconLite2
        then [JumpStartSageMakerEndpoint_new ''Falcon-Lite2'' Falcon_Lite2_props,
              suppression_call (RoleOfEndpoint ''Falcon-Lite2'')]
        else [])
       (ms @ (if sagemaker_includes cfg FalconLite2 then [falcon_descriptor ext] else []))"
  by (auto simp: falcon_block_def run_def return_action_def perform_def bind_action_def
        new_JumpStartSageMakerEndpoint_def suppressCdkNagWarningForEndpointRole_def
        falcon_descriptor_def Falcon_Lite2_props_def suppression_call_def fun_eq_iff
        split: option.splits)

lemma zephyr_block_run:
  "zephyr_block ext cfg ms =
     run ext
       (if sagemaker_includes cfg Zephyr7b
        then [JumpStartSageMakerEndpoint_new ''Zephyr7b'' Zephyr7b_props,
              suppression_call (RoleOfEndpoint ''Zephyr7b'')]
        else [])
       (ms @ (if sagemaker_includes cfg Zephyr7b then [zephyr_descriptor ext] else []))"
  by (auto simp: zephyr_block_def run_def return_action_def perform_def bind_action_def
        new_JumpStartSageMakerEndpoint_def suppressCdkNagWarningForEndpointRole_def
        zephyr_descriptor_def Zephyr7b_props_def suppression_call_def fun_eq_iff
        split: option.splits)

lemma forEach_schedules_run:
  "forEach_schedules ext i r cfg ms tr = run ext (model_schedule_calls i r cfg ms) () tr"
  by (induction ms arbitrary: tr)
     (simp_all add: run_def return_action_def perform_def bind_action_def
        createStartSchedule_def createStopSchedule_def split: option.splits)

lemma schedule_block_run:
  "schedule_block ext i cfg ms = run ext (scheduler_calls i cfg ms) ()"
proof
  fix tr
  show "schedule_block ext i cfg ms tr = run ext (scheduler_calls i cfg ms) () tr"
  proof (cases "ms \<noteq> [] \<and> sagemakerSchedule_enabled cfg")
    case True
    then show ?thesis
      by (simp add: schedule_block_def scheduler_calls_def bind_action_def perform_def
          suppressCdkNagWarningForEndpointRole_def suppression_call_def forEach_schedules_run
          run_def first_throw_append split: option.splits)
  next
    case False
    then show ?thesis
      by (auto simp: schedule_block_def scheduler_calls_def run_def return_action_def)
  qed
qed

lemma perform_bind:
  "bind_action (perform ext c a) f tr =
     (case raises ext tr c of Some e \<Rightarrow> Inl e | None \<Rightarrow> f a (tr @ [c]))"
  by (simp add: bind_action_def perform_def split: option.splits)

lemma run_then:
  "bind_action (run ext cs a) (\<lambda>x. run ext (g x) (h x)) = run ext (cs @ g a) (h a)"
  by (simp add: fun_eq_iff bind_action_def run_def first_throw_append split: option.splits)

lemma perform_run: "perform ext c a = run ext [c] a"
  by (simp add: fun_eq_iff perform_def run_def split: option.splits)

lemma return_action_run: "return_action a = run ext [] a"
  by (simp add: fun_eq_iff return_action_def run_def)

lemma Models_constructor_run:
  assumes "llms (config props) \<noteq> None"
  shows "Models_constructor ext i props =
           run ext (expected_calls ext i (config props)) (expected_this ext (config props))"
proof -
  from assms obtain s where
    s: "hfTokenSecret_block ext (config props) = run ext (secret_calls (config props)) s"
    using hfTokenSecret_block_run by blast
  have r: "\<And>x::Models. return_action x = run ext [] x"
    by (rule return_action_run)
  have "Models_constructor ext i props =
          run ext
            ([Construct_new i] @ secret_calls (config props) @
             (if sagemaker_includes (config props) FalconLite2
              then [JumpStartSageMakerEndpoint_new ''Falcon-Lite2'' Falcon_Lite2_props,
                    suppression_call (RoleOfEndpoint ''Falcon-Lite2'')]
              else []) @
             (if sagemaker_includes (config props) Zephyr7b
              then [JumpStartSageMakerEndpoint_new ''Zephyr7b'' Zephyr7b_props,
                    suppression_call (RoleOfEndpoint ''Zephyr7b'')]
              else []) @
             [StringParameter_new ''ModelsParameter''
                (parameter_props ext ([] @ expected_models ext (config props)))] @
             scheduler_calls i (config props) ([] @ expected_models ext (config props)) @ [])
            \<lparr>models = [] @ expected_models ext (config props),
             modelsParameter = StringParameter ''ModelsParameter''
               (parameter_props ext ([] @ expected_models ext (config props)))\<rparr>"
    unfolding Models_constructor_def parameter_props_def [symmetric] new_StringParameter_def
      s r perform_run falcon_block_run zephyr_block_run schedule_block_run run_then
      expected_models_def append_assoc
    by (rule refl)
  then show ?thesis
    by (simp add: expected_calls_def endpoint_calls_def expected_this_def)
qed

lemma new_Models_undefined_llms:
  "llms (config props) = None \<Longrightarrow>
     new_Models ext i props =
       (case raises ext [] (Construct_new i) of
          Some e \<Rightarrow> Inl e
        | None \<Rightarrow> Inl (TypeError ''Cannot read properties of undefined (reading 'huggingfaceApiSecretArn')''))"
  unfolding new_Models_def Models_constructor_def perform_bind hfTokenSecret_block_def
  by (simp add: bind_action_def throw_def split: option.splits)

lemma new_Models_result:
  assumes "new_Models ext i props = Inr (this, tr)"
  shows "llms (config props) \<noteq> None"
    and "this = expected_this ext (config props)"
    and "tr = expected_calls ext i (config props)"
    and "accepted ext tr"
proof -
  show l: "llms (config props) \<noteq> None"
  proof
    assume "llms (config props) = None"
    from new_Models_undefined_llms [OF this, of ext i] assms show False
      by (simp split: option.splits)
  qed
  from assms Models_constructor_run [OF l, of ext i]
  have "run ext (expected_calls ext i (config props)) (expected_this ext (config props)) [] =
          Inr (this, tr)"
    by (simp add: new_Models_def)
  then show "this = expected_this ext (config props)"
    and "tr = expected_calls ext i (config props)" and "accepted ext tr"
    by (auto simp: run_def accepted_def split: option.splits)
qed

lemma new_Models_models:
  "new_Models ext i props = Inr (this, tr) \<Longrightarrow> models this = expected_models ext (config props)"
  by (drule new_Models_result(2)) (simp add: expected_this_def)

lemma new_Models_parameter:
  "new_Models ext i props = Inr (this, tr) \<Longrightarrow>
     stringValue (parameterProps (modelsParameter this)) =
       JSON_stringify (JArray (map (model_object ext) (models this)))"
  by (drule new_Models_result(2)) (simp add: expected_this_def parameter_props_def)

text \<open>
  The constructor returns whenever \<open>llms\<close> is defined and none of its calls throws.
\<close>

lemma new_Models_succeeds:
  assumes "llms (config props) \<noteq> None"
    and "first_throw ext [] (expected_calls ext i (config props)) = None"
  shows "new_Models ext i props =
           Inr (expected_this ext (config props), expected_calls ext i (config props))"
  using assms by (simp add: new_Models_def Models_constructor_run run_def)

lemma model_object_properties:
  "\<exists>ps. model_object ext m = JObject ps \<and> map fst ps = descriptor_keys \<and>
        (endpointName (endpoint m) \<noteq> None \<longrightarrow> serialized_keys ps = descriptor_keys)"
  by (auto simp: model_object_def descriptor_keys_def serialized_keys_def enum_js_def
        split: enum_value.splits option.splits)

lemma model_object_is_object: "JObject (properties_of (model_object ext m)) = model_object ext m"
  by (simp add: model_object_def)

lemma expected_models_filter_falcon:
  "filter (\<lambda>d. name d = ''jumpstart-Amazon-FalconLite2'') (expected_models ext cfg) =
     (if sagemaker_includes cfg FalconLite2 then [falcon_descriptor ext] else [])"
  by (simp add: expected_models_def falcon_descriptor_def zephyr_descriptor_def
      FALCON_LITE_2_ENDPOINT_NAME_value ZEPHYR_7B_ENDPOINT_NAME_value)

lemma expected_models_filter_zephyr:
  "filter (\<lambda>d. name d = ''jumpstart-HuggingFaceH4-zephyr-7b-beta'') (expected_models ext cfg) =
     (if sagemaker_includes cfg Zephyr7b then [zephyr_descriptor ext] else [])"
  by (simp add: expected_models_def falcon_descriptor_def zephyr_descriptor_def
      FALCON_LITE_2_ENDPOINT_NAME_value ZEPHYR_7B_ENDPOINT_NAME_value)

lemma expected_models_distinct: "distinct (map endpoint (expected_models ext cfg))"
  by (simp add: expected_models_def falcon_descriptor_def zephyr_descriptor_def)

lemma expected_models_cong:
  assumes "cfnEndpointName ext1 = cfnEndpointName ext2"
    and "sagemaker_includes cfg1 = sagemaker_includes cfg2"
  shows "expected_models ext1 cfg1 = expected_models ext2 cfg2"
  using assms by (simp add: expected_models_def falcon_descriptor_def zephyr_descriptor_def)

lemma model_object_cong:
  assumes "Modality_value ext1 = Modality_value ext2"
    and "ModelInterface_value ext1 = ModelInterface_value ext2"
  shows "model_object ext1 = model_object ext2"
  using assms by (simp add: fun_eq_iff model_object_def)

lemma model_object_fields:
  "model_object ext m =
     JObject
       [(''name'', JString (name m)),
        (''endpoint'',
           (case endpointName (endpoint m) of None \<Rightarrow> JUndefined | Some n \<Rightarrow> JString n)),
        (''responseStreamingSupported'', JBoolean (responseStreamingSupported m)),
        (''inputModalities'',
           JArray (map (\<lambda>x. case Modality_value ext x of
                               EnumString s \<Rightarrow> JString s | EnumNumber n \<Rightarrow> JNumber n)
                     (inputModalities m))),
        (''outputModalities'',
           JArray (map (\<lambda>x. case Modality_value ext x of
                               EnumString s \<Rightarrow> JString s | EnumNumber n \<Rightarrow> JNumber n)
                     (outputModalities m))),
        (''interface'',
           (case ModelInterface_value ext (interface m) of
              EnumString s \<Rightarrow> JString s | EnumNumber n \<Rightarrow> JNumber n)),
        (''ragSupported'', JBoolean (ragSupported m))]"
  by (simp add: model_object_def enum_js_def)

lemma falcon_object:
  "model_object ext (falcon_descriptor ext) =
     JObject
                [(''name'', JString ''jumpstart-Amazon-FalconLite2''),
                 (''endpoint'',
                    (case endpointName (endpoint (falcon_descriptor ext)) of
                       None \<Rightarrow> JUndefined | Some n \<Rightarrow> JString n)),
                 (''responseStreamingSupported'', JBoolean True),
                 (''inputModalities'',
                    JArray [case Modality_value ext Text of
                              EnumString s \<Rightarrow> JString s | EnumNumber n \<Rightarrow> JNumber n]),
                 (''outputModalities'',
                    JArray [case Modality_value ext Text of
                              EnumString s \<Rightarrow> JString s | EnumNumber n \<Rightarrow> JNumber n]),
                 (''interface'',
                    (case ModelInterface_value ext LangChain of
                       EnumString s \<Rightarrow> JString s | EnumNumber n \<Rightarrow> JNumber n)),
                 (''ragSupported'', JBoolean True)]"
  by (simp add: model_object_fields)
     (simp add: falcon_descriptor_def FALCON_LITE_2_ENDPOINT_NAME_value)

lemma zephyr_object:
  "model_object ext (zephyr_descriptor ext) =
     JObject
                [(''name'', JString ''jumpstart-HuggingFaceH4-zephyr-7b-beta''),
                 (''endpoint'',
                    (case endpointName (endpoint (zephyr_descriptor ext)) of
                       None \<Rightarrow> JUndefined | Some n \<Rightarrow> JString n)),
                 (''responseStreamingSupported'', JBoolean False),
                 (''inputModalities'',
                    JArray [case Modality_value ext Text of
                              EnumString s \<Rightarrow> JString s | EnumNumber n \<Rightarrow> JNumber n]),
                 (''outputModalities'',
                    JArray [case Modality_value ext Text of
                              EnumString s \<Rightarrow> JString s | EnumNumber n \<Rightarrow> JNumber n]),
                 (''interface'',
                    (case ModelInterface_value ext LangChain of
                       EnumString s \<Rightarrow> JString s | EnumNumber n \<Rightarrow> JNumber n)),
                 (''ragSupported'', JBoolean True)]"
  by (simp add: model_object_fields)
     (simp add: zephyr_descriptor_def ZEPHYR_7B_ENDPOINT_NAME_value)

lemma expected_objects_filter_falcon:
  "filter (\<lambda>v. map_of (properties_of v) ''name'' = Some (JString ''jumpstart-Amazon-FalconLite2''))
     (map (model_object ext) (expected_models ext cfg)) =
     (if sagemaker_includes cfg FalconLite2 then [model_object ext (falcon_descriptor ext)] else [])"
  by (simp add: expected_models_def falcon_object zephyr_object)

lemma expected_objects_filter_zephyr:
  "filter (\<lambda>v. map_of (properties_of v) ''name'' =
                Some (JString ''jumpstart-HuggingFaceH4-zephyr-7b-beta''))
     (map (model_object ext) (expected_models ext cfg)) =
     (if sagemaker_includes cfg Zephyr7b then [model_object ext (zephyr_descriptor ext)] else [])"
  by (simp add: expected_models_def falcon_object zephyr_object)

lemma example_cdk_values:
  "Modality_value example_cdk Text = EnumString ''TEXT''"
  "ModelInterface_value example_cdk LangChain = EnumString ''langchain''"
  by (simp_all add: example_cdk_def)

lemma constructor_calls_defined:
  "llms cfg \<noteq> None \<Longrightarrow> constructor_calls ext i cfg = expected_calls ext i cfg"
  by (auto simp: constructor_calls_def)

lemmas constructor_defs =
  new_Models_def Models_constructor_def bind_action_def perform_def return_action_def
  hfTokenSecret_block_def falcon_block_def zephyr_block_def schedule_block_def
  new_StringParameter_def new_JumpStartSageMakerEndpoint_def
  suppressCdkNagWarningForEndpointRole_def createStartSchedule_def createStopSchedule_def
  sagemaker_includes_def Array_includes_def sagemakerSchedule_enabled_def

subsection \<open>Runs of the examples\<close>

lemma example_both_run:
  "new_Models example_cdk i example_both =
     Inr (expected_this example_cdk (config example_both),
          expected_calls example_cdk i (config example_both))"
  by (simp add: constructor_defs example_cdk_def example_both_def expected_this_def
      expected_calls_def expected_models_def secret_calls_def endpoint_calls_def
      scheduler_calls_def parameter_props_def falcon_descriptor_def zephyr_descriptor_def
      Falcon_Lite2_props_def Zephyr7b_props_def suppression_call_def)

lemma example_both_other_secret_run:
  "new_Models example_cdk i example_both_other_secret =
     Inr (expected_this example_cdk (config example_both_other_secret),
          expected_calls example_cdk i (config example_both_other_secret))"
  by (simp add: constructor_defs example_cdk_def example_both_other_secret_def expected_this_def
      expected_calls_def expected_models_def secret_calls_def endpoint_calls_def
      scheduler_calls_def parameter_props_def falcon_descriptor_def zephyr_descriptor_def
      Falcon_Lite2_props_def Zephyr7b_props_def suppression_call_def)

lemma example_zephyr_run:
  "new_Models example_cdk i example_zephyr =
     Inr (expected_this example_cdk (config example_zephyr),
          expected_calls example_cdk i (config example_zephyr))"
  by (simp add: constructor_defs example_cdk_def example_zephyr_def expected_this_def
      expected_calls_def expected_models_def secret_calls_def endpoint_calls_def
      scheduler_calls_def parameter_props_def falcon_descriptor_def zephyr_descriptor_def
      Falcon_Lite2_props_def Zephyr7b_props_def suppression_call_def)

lemma example_none_run:
  "new_Models example_cdk ''Models'' example_none =
     Inr (\<lparr>models = [],
           modelsParameter = StringParameter ''ModelsParameter'' \<lparr>stringValue = Some ''[]''\<rparr>\<rparr>,
          [Construct_new ''Models'',
           StringParameter_new ''ModelsParameter'' \<lparr>stringValue = Some ''[]''\<rparr>])"
  by (simp add: constructor_defs example_cdk_def example_none_def JSON_stringify_def)

lemma example_without_llms_run:
  "new_Models example_cdk ''Models'' example_without_llms =
     Inl (TypeError ''Cannot read properties of undefined (reading 'huggingfaceApiSecretArn')'')"
  by (simp add: constructor_defs example_cdk_def example_without_llms_def throw_def)

lemma example_both_includes:
  "sagemaker_includes (config example_both) FalconLite2"
  "sagemaker_includes (config example_both) Zephyr7b"
  "sagemakerSchedule_enabled (config example_both)"
  by (simp_all add: example_both_def sagemaker_includes_def Array_includes_def
      sagemakerSchedule_enabled_def)

lemma example_both_models:
  "models (expected_this example_cdk (config example_both)) =
     [falcon_descriptor example_cdk, zephyr_descriptor example_cdk]"
  by (simp add: expected_this_def expected_models_def example_both_includes)

lemma example_descriptors:
  "falcon_descriptor example_cdk =
     \<lparr>name = ''jumpstart-Amazon-FalconLite2'',
      endpoint = \<lparr>ownerId = ''Falcon-Lite2'', endpointName = Some ''jumpstart-Amazon-FalconLite2''\<rparr>,
      responseStreamingSupported = True, inputModalities = [Text], outputModalities = [Text],
      interface = LangChain, ragSupported = True\<rparr>"
  "zephyr_descriptor example_cdk =
     \<lparr>name = ''jumpstart-HuggingFaceH4-zephyr-7b-beta'',
      endpoint = \<lparr>ownerId = ''Zephyr7b'',
                  endpointName = Some ''jumpstart-HuggingFaceH4-zephyr-7b-beta''\<rparr>,
      responseStreamingSupported = False, inputModalities = [Text], outputModalities = [Text],
      interface = LangChain, ragSupported = True\<rparr>"
  by (simp_all add: falcon_descriptor_def zephyr_descriptor_def example_cdk_def
      Falcon_Lite2_props_def Zephyr7b_props_def FALCON_LITE_2_ENDPOINT_NAME_value
      ZEPHYR_7B_ENDPOINT_NAME_value)

subsection \<open>The claims\<close>

text \<open>
  Claim C1. Whenever the constructor returns, the string value it stored in the
  ModelsParameter parameter is the JSON text of an array of objects, one for each
  descriptor, and every object is written with exactly the keys name, endpoint,
  responseStreamingSupported, inputModalities, outputModalities, interface and
  ragSupported, in this order. The endpoint key is written because the endpoint the
  CDK handed back carries its \<open>endpointName\<close>; \<open>JSON.stringify\<close> leaves a key whose
  value is \<open>undefined\<close> out.
\<close>

theorem C1_parameter_is_array_of_objects:
  assumes "new_Models ext i props = Inr (this, tr)"
    and "\<forall>m \<in> set (models this). endpointName (endpoint m) \<noteq> None"
  shows "\<exists>objs json.
           stringValue (parameterProps (modelsParameter this)) = Some json \<and>
           JSON_stringify (JArray (map JObject objs)) = Some json \<and>
           (\<forall>ps \<in> set objs. map fst ps = descriptor_keys \<and> serialized_keys ps = descriptor_keys)"
proof -
  let ?objs = "map (\<lambda>m. properties_of (model_object ext m)) (models this)"
  have eq: "map JObject ?objs = map (model_object ext) (models this)"
    by (simp add: model_object_is_object)
  have keys: "\<forall>ps \<in> set ?objs. map fst ps = descriptor_keys \<and> serialized_keys ps = descriptor_keys"
  proof
    fix ps assume "ps \<in> set ?objs"
    then obtain m where m: "m \<in> set (models this)" "ps = properties_of (model_object ext m)"
      by auto
    from model_object_properties [of ext m] obtain qs where
      "model_object ext m = JObject qs" "map fst qs = descriptor_keys"
      "endpointName (endpoint m) \<noteq> None \<longrightarrow> serialized_keys qs = descriptor_keys"
      by blast
    with m assms(2) show "map fst ps = descriptor_keys \<and> serialized_keys ps = descriptor_keys"
      by simp
  qed
  obtain json where
    json: "JSON_stringify (JArray (map (model_object ext) (models this))) = Some json"
    by (simp add: JSON_stringify_def)
  then have "stringValue (parameterProps (modelsParameter this)) = Some json"
    by (simp add: new_Models_parameter [OF assms(1)])
  moreover from json have "JSON_stringify (JArray (map JObject ?objs)) = Some json"
    unfolding eq [symmetric] .
  ultimately show ?thesis using keys by blast
qed

theorem C1_parameter_is_array_of_objects_witness:
  "new_Models example_cdk ''Models'' example_both =
     Inr (expected_this example_cdk (config example_both),
          expected_calls example_cdk ''Models'' (config example_both)) \<and>
   map (\<lambda>m. endpointName (endpoint m)) (models (expected_this example_cdk (config example_both))) =
     [Some ''jumpstart-Amazon-FalconLite2'', Some ''jumpstart-HuggingFaceH4-zephyr-7b-beta''] \<and>
   (\<exists>objs json.
      stringValue (parameterProps (modelsParameter (expected_this example_cdk (config example_both)))) =
        Some json \<and>
      JSON_stringify (JArray (map JObject objs)) = Some json \<and>
      list_all (\<lambda>ps. map fst ps = descriptor_keys \<and> serialized_keys ps = descriptor_keys) objs)"
proof -
  have names: "map (\<lambda>m. endpointName (endpoint m))
      (models (expected_this example_cdk (config example_both))) =
     [Some ''jumpstart-Amazon-FalconLite2'', Some ''jumpstart-HuggingFaceH4-zephyr-7b-beta'']"
    by (simp add: example_both_models example_descriptors)
  have "\<forall>m \<in> set (models (expected_this example_cdk (config example_both))).
          endpointName (endpoint m) \<noteq> None"
    by (simp add: example_both_models example_descriptors)
  from C1_parameter_is_array_of_objects [OF example_both_run this]
  show ?thesis using names by (simp add: example_both_run list_all_iff)
qed

text \<open>
  Claim C2. The parameter is the serialisation of an array of objects, one for each
  descriptor of \<open>this.models\<close>, and for each of the two supported flags: when the
  sagemaker list of the configuration includes the flag, there is exactly one descriptor
  with the derived name of that model ("jumpstart-Amazon-FalconLite2",
  "jumpstart-HuggingFaceH4-zephyr-7b-beta"), its input and output modalities are [Text]
  and its interface is LangChain, and the serialised array holds exactly one object with
  that name, whose properties are the name, the endpoint's name, the streaming flag, the
  values of [Text] for both modalities, the value of LangChain for the interface, and
  \<open>ragSupported\<close>; when the flag is absent, no descriptor and no object of the array has
  that name.
\<close>

theorem C2_one_descriptor_per_enabled_model:
  assumes "new_Models ext i props = Inr (this, tr)"
  shows "\<exists>objs.
         stringValue (parameterProps (modelsParameter this)) = JSON_stringify (JArray objs) \<and>
         length objs = length (models this) \<and>
         (sagemaker_includes (config props) FalconLite2 \<longrightarrow>
            (\<exists>m. filter (\<lambda>d. name d = ''jumpstart-Amazon-FalconLite2'') (models this) = [m] \<and>
                 inputModalities m = [Text] \<and> outputModalities m = [Text] \<and>
                 interface m = LangChain \<and>
                 filter (\<lambda>v. map_of (properties_of v) ''name'' = Some (JString ''jumpstart-Amazon-FalconLite2'')) objs =
                   [JObject
                    [(''name'', JString ''jumpstart-Amazon-FalconLite2''),
                     (''endpoint'',
                        (case endpointName (endpoint m) of
                           None \<Rightarrow> JUndefined | Some n \<Rightarrow> JString n)),
                     (''responseStreamingSupported'', JBoolean True),
                     (''inputModalities'',
                        JArray [case Modality_value ext Text of
                                  EnumString s \<Rightarrow> JString s | EnumNumber n \<Rightarrow> JNumber n]),
                     (''outputModalities'',
                        JArray [case Modality_value ext Text of
                                  EnumString s \<Rightarrow> JString s | EnumNumber n \<Rightarrow> JNumber n]),
                     (''interface'',
                        (case ModelInterface_value ext LangChain of
                           EnumString s \<Rightarrow> JString s | EnumNumber n \<Rightarrow> JNumber n)),
                     (''ragSupported'', JBoolean True)]])) \<and>
         (\<not> sagemaker_includes (config props) FalconLite2 \<longrightarrow>
            filter (\<lambda>d. name d = ''jumpstart-Amazon-FalconLite2'') (models this) = [] \<and>
            filter (\<lambda>v. map_of (properties_of v) ''name'' = Some (JString ''jumpstart-Amazon-FalconLite2'')) objs = []) \<and>
         (sagemaker_includes (config props) Zephyr7b \<longrightarrow>
            (\<exists>m. filter (\<lambda>d. name d = ''jumpstart-HuggingFaceH4-zephyr-7b-beta'') (models this) = [m] \<and>
                 inputModalities m = [Text] \<and> outputModalities m = [Text] \<and>
                 interface m = LangChain \<and>
                 filter (\<lambda>v. map_of (properties_of v) ''name'' = Some (JString ''jumpstart-HuggingFaceH4-zephyr-7b-beta'')) objs =
                   [JObject
                    [(''name'', JString ''jumpstart-HuggingFaceH4-zephyr-7b-beta''),
                     (''endpoint'',
                        (case endpointName (endpoint m) of
                           None \<Rightarrow> JUndefined | Some n \<Rightarrow> JString n)),
                     (''responseStreamingSupported'', JBoolean False),
                     (''inputModalities'',
                        JArray [case Modality_value ext Text of
                                  EnumString s \<Rightarrow> JString s | EnumNumber n \<Rightarrow> JNumber n]),
                     (''outputModalities'',
                        JArray [case Modality_value ext Text of
                                  EnumString s \<Rightarrow> JString s | EnumNumber n \<Rightarrow> JNumber n]),
                     (''interface'',
                        (case ModelInterface_value ext LangChain of
                           EnumString s \<Rightarrow> JString s | EnumNumber n \<Rightarrow> JNumber n)),
                     (''ragSupported'', JBoolean True)]])) \<and>
         (\<not> sagemaker_includes (config props) Zephyr7b \<longrightarrow>
            filter (\<lambda>d. name d = ''jumpstart-HuggingFaceH4-zephyr-7b-beta'') (models this) = [] \<and>
            filter (\<lambda>v. map_of (properties_of v) ''name'' = Some (JString ''jumpstart-HuggingFaceH4-zephyr-7b-beta'')) objs = [])"
proof -
  let ?objs = "map (model_object ext) (models this)"
  have ms: "models this = expected_models ext (config props)"
    by (rule new_Models_models [OF assms])
  have p: "stringValue (parameterProps (modelsParameter this)) = JSON_stringify (JArray ?objs)"
    by (rule new_Models_parameter [OF assms])
  have F: "sagemaker_includes (config props) FalconLite2 \<longrightarrow>
      (\<exists>m. filter (\<lambda>d. name d = ''jumpstart-Amazon-FalconLite2'') (models this) = [m] \<and>
           inputModalities m = [Text] \<and> outputModalities m = [Text] \<and> interface m = LangChain \<and>
           filter (\<lambda>v. map_of (properties_of v) ''name'' = Some (JString ''jumpstart-Amazon-FalconLite2'')) ?objs =
             [model_object ext m])"
  proof
    assume on: "sagemaker_includes (config props) FalconLite2"
    have "filter (\<lambda>d. name d = ''jumpstart-Amazon-FalconLite2'') (models this) = [falcon_descriptor ext] \<and>
        inputModalities (falcon_descriptor ext) = [Text] \<and> outputModalities (falcon_descriptor ext) = [Text] \<and>
        interface (falcon_descriptor ext) = LangChain \<and>
        filter (\<lambda>v. map_of (properties_of v) ''name'' = Some (JString ''jumpstart-Amazon-FalconLite2'')) ?objs =
          [model_object ext (falcon_descriptor ext)]"
      using on by (simp add: ms expected_models_filter_falcon expected_objects_filter_falcon) (simp add: falcon_descriptor_def)
    then show "\<exists>m. filter (\<lambda>d. name d = ''jumpstart-Amazon-FalconLite2'') (models this) = [m] \<and>
           inputModalities m = [Text] \<and> outputModalities m = [Text] \<and> interface m = LangChain \<and>
           filter (\<lambda>v. map_of (properties_of v) ''name'' = Some (JString ''jumpstart-Amazon-FalconLite2'')) ?objs =
             [model_object ext m]"
      by blast
  qed
  have nF: "\<not> sagemaker_includes (config props) FalconLite2 \<longrightarrow>
      filter (\<lambda>d. name d = ''jumpstart-Amazon-FalconLite2'') (models this) = [] \<and>
      filter (\<lambda>v. map_of (properties_of v) ''name'' = Some (JString ''jumpstart-Amazon-FalconLite2'')) ?objs = []"
    by (simp add: ms expected_models_filter_falcon expected_objects_filter_falcon)
  have Z: "sagemaker_includes (config props) Zephyr7b \<longrightarrow>
      (\<exists>m. filter (\<lambda>d. name d = ''jumpstart-HuggingFaceH4-zephyr-7b-beta'') (models this) = [m] \<and>
           inputModalities m = [Text] \<and> outputModalities m = [Text] \<and> interface m = LangChain \<and>
           filter (\<lambda>v. map_of (properties_of v) ''name'' = Some (JString ''jumpstart-HuggingFaceH4-zephyr-7b-beta'')) ?objs =
             [model_object ext m])"
  proof
    assume on: "sagemaker_includes (config props) Zephyr7b"
    have "filter (\<lambda>d. name d = ''jumpstart-HuggingFaceH4-zephyr-7b-beta'') (models this) = [zephyr_descriptor ext] \<and>
        inputModalities (zephyr_descriptor ext) = [Text] \<and> outputModalities (zephyr_descriptor ext) = [Text] \<and>
        interface (zephyr_descriptor ext) = LangChain \<and>
        filter (\<lambda>v. map_of (properties_of v) ''name'' = Some (JString ''jumpstart-HuggingFaceH4-zephyr-7b-beta'')) ?objs =
          [model_object ext (zephyr_descriptor ext)]"
      using on by (simp add: ms expected_models_filter_zephyr expected_objects_filter_zephyr) (simp add: zephyr_descriptor_def)
    then show "\<exists>m. filter (\<lambda>d. name d = ''jumpstart-HuggingFaceH4-zephyr-7b-beta'') (models this) = [m] \<and>
           inputModalities m = [Text] \<and> outputModalities m = [Text] \<and> interface m = LangChain \<and>
           filter (\<lambda>v. map_of (properties_of v) ''name'' = Some (JString ''jumpstart-HuggingFaceH4-zephyr-7b-beta'')) ?objs =
             [model_object ext m]"
      by blast
  qed
  have nZ: "\<not> sagemaker_includes (config props) Zephyr7b \<longrightarrow>
      filter (\<lambda>d. name d = ''jumpstart-HuggingFaceH4-zephyr-7b-beta'') (models this) = [] \<and>
      filter (\<lambda>v. map_of (properties_of v) ''name'' = Some (JString ''jumpstart-HuggingFaceH4-zephyr-7b-beta'')) ?objs = []"
    by (simp add: ms expected_models_filter_zephyr expected_objects_filter_zephyr)
  have fo: "\<And>m. filter (\<lambda>d. name d = ''jumpstart-Amazon-FalconLite2'') (models this) = [m] \<Longrightarrow>
      model_object ext m =
        JObject
        [(''name'', JString ''jumpstart-Amazon-FalconLite2''),
         (''endpoint'',
            (case endpointName (endpoint m) of
               None \<Rightarrow> JUndefined | Some n \<Rightarrow> JString n)),
         (''responseStreamingSupported'', JBoolean True),
         (''inputModalities'',
            JArray [case Modality_value ext Text of
                      EnumString s \<Rightarrow> JString s | EnumNumber n \<Rightarrow> JNumber n]),
         (''outputModalities'',
            JArray [case Modality_value ext Text of
                      EnumString s \<Rightarrow> JString s | EnumNumber n \<Rightarrow> JNumber n]),
         (''interface'',
            (case ModelInterface_value ext LangChain of
               EnumString s \<Rightarrow> JString s | EnumNumber n \<Rightarrow> JNumber n)),
         (''ragSupported'', JBoolean True)]"
  proof -
    fix m assume "filter (\<lambda>d. name d = ''jumpstart-Amazon-FalconLite2'') (models this) = [m]"
    then have "m \<in> set (filter (\<lambda>d. name d = ''jumpstart-Amazon-FalconLite2'') (models this))" by simp
    then have "m = falcon_descriptor ext"
      by (auto simp: ms expected_models_def zephyr_descriptor_def ZEPHYR_7B_ENDPOINT_NAME_value
            split: if_splits)
    then show "model_object ext m =
        JObject
        [(''name'', JString ''jumpstart-Amazon-FalconLite2''),
         (''endpoint'',
            (case endpointName (endpoint m) of
               None \<Rightarrow> JUndefined | Some n \<Rightarrow> JString n)),
         (''responseStreamingSupported'', JBoolean True),
         (''inputModalities'',
            JArray [case Modality_value ext Text of
                      EnumString s \<Rightarrow> JString s | EnumNumber n \<Rightarrow> JNumber n]),
         (''outputModalities'',
            JArray [case Modality_value ext Text of
                      EnumString s \<Rightarrow> JString s | EnumNumber n \<Rightarrow> JNumber n]),
         (''interface'',
            (case ModelInterface_value ext LangChain of
               EnumString s \<Rightarrow> JString s | EnumNumber n \<Rightarrow> JNumber n)),
         (''ragSupported'', JBoolean True)]"
      by (simp add: falcon_object)
  qed
  have zo: "\<And>m. filter (\<lambda>d. name d = ''jumpstart-HuggingFaceH4-zephyr-7b-beta'') (models this) = [m] \<Longrightarrow>
      model_object ext m =
        JObject
        [(''name'', JString ''jumpstart-HuggingFaceH4-zephyr-7b-beta''),
         (''endpoint'',
            (case endpointName (endpoint m) of
               None \<Rightarrow> JUndefined | Some n \<Rightarrow> JString n)),
         (''responseStreamingSupported'', JBoolean False),
         (''inputModalities'',
            JArray [case Modality_value ext Text of
                      EnumString s \<Rightarrow> JString s | EnumNumber n \<Rightarrow> JNumber n]),
         (''outputModalities'',
            JArray [case Modality_value ext Text of
                      EnumString s \<Rightarrow> JString s | EnumNumber n \<Rightarrow> JNumber n]),
         (''interface'',
            (case ModelInterface_value ext LangChain of
               EnumString s \<Rightarrow> JString s | EnumNumber n \<Rightarrow> JNumber n)),
         (''ragSupported'', JBoolean True)]"
  proof -
    fix m assume "filter (\<lambda>d. name d = ''jumpstart-HuggingFaceH4-zephyr-7b-beta'') (models this) = [m]"
    then have "m \<in> set (filter (\<lambda>d. name d = ''jumpstart-HuggingFaceH4-zephyr-7b-beta'') (models this))" by simp
    then have "m = zephyr_descriptor ext"
      by (auto simp: ms expected_models_def falcon_descriptor_def FALCON_LITE_2_ENDPOINT_NAME_value
            split: if_splits)
    then show "model_object ext m =
        JObject
        [(''name'', JString ''jumpstart-HuggingFaceH4-zephyr-7b-beta''),
         (''endpoint'',
            (case endpointName (endpoint m) of
               None \<Rightarrow> JUndefined | Some n \<Rightarrow> JString n)),
         (''responseStreamingSupported'', JBoolean False),
         (''inputModalities'',
            JArray [case Modality_value ext Text of
                      EnumString s \<Rightarrow> JString s | EnumNumber n \<Rightarrow> JNumber n]),
         (''outputModalities'',
            JArray [case Modality_value ext Text of
                      EnumString s \<Rightarrow> JString s | EnumNumber n \<Rightarrow> JNumber n]),
         (''interface'',
            (case ModelInterface_value ext LangChain of
               EnumString s \<Rightarrow> JString s | EnumNumber n \<Rightarrow> JNumber n)),
         (''ragSupported'', JBoolean True)]"
      by (simp add: zephyr_object)
  qed
  show ?thesis
    apply (rule exI [of _ ?objs])
    apply (intro conjI)
         apply (rule p)
        apply simp
    using F fo apply fastforce
    using nF apply blast
    using Z zo apply fastforce
    using nZ apply blast
    done
qed

theorem C2_one_descriptor_per_enabled_model_witness:
  "sagemaker_includes (config example_both) FalconLite2 \<and>
   sagemaker_includes (config example_both) Zephyr7b \<and>
   filter (\<lambda>d. name d = ''jumpstart-Amazon-FalconLite2'')
     (models (expected_this example_cdk (config example_both))) = [falcon_descriptor example_cdk] \<and>
   filter (\<lambda>d. name d = ''jumpstart-HuggingFaceH4-zephyr-7b-beta'')
     (models (expected_this example_cdk (config example_both))) = [zephyr_descriptor example_cdk] \<and>
   inputModalities (falcon_descriptor example_cdk) = [Text] \<and>
   interface (zephyr_descriptor example_cdk) = LangChain \<and>
   (\<exists>objs.
      stringValue (parameterProps (modelsParameter (expected_this example_cdk (config example_both)))) =
        JSON_stringify (JArray objs) \<and>
      length objs = 2 \<and>
      filter (\<lambda>v. map_of (properties_of v) ''name'' = Some (JString ''jumpstart-Amazon-FalconLite2''))
        objs =
        [JObject
        [(''name'', JString ''jumpstart-Amazon-FalconLite2''),
         (''endpoint'', JString ''jumpstart-Amazon-FalconLite2''),
         (''responseStreamingSupported'', JBoolean True),
         (''inputModalities'', JArray [JString ''TEXT'']),
         (''outputModalities'', JArray [JString ''TEXT'']),
         (''interface'', JString ''langchain''),
         (''ragSupported'', JBoolean True)]] \<and>
      filter (\<lambda>v. map_of (properties_of v) ''name'' =
                   Some (JString ''jumpstart-HuggingFaceH4-zephyr-7b-beta''))
        objs =
        [JObject
        [(''name'', JString ''jumpstart-HuggingFaceH4-zephyr-7b-beta''),
         (''endpoint'', JString ''jumpstart-HuggingFaceH4-zephyr-7b-beta''),
         (''responseStreamingSupported'', JBoolean False),
         (''inputModalities'', JArray [JString ''TEXT'']),
         (''outputModalities'', JArray [JString ''TEXT'']),
         (''interface'', JString ''langchain''),
         (''ragSupported'', JBoolean True)]]) \<and>
   \<not> sagemaker_includes (config example_none) FalconLite2 \<and>
   \<not> sagemaker_includes (config example_none) Zephyr7b \<and>
   (\<exists>objs.
      JSON_stringify (JArray objs) = Some ''[]'' \<and> length objs = 0 \<and>
      filter (\<lambda>v. map_of (properties_of v) ''name'' = Some (JString ''jumpstart-Amazon-FalconLite2''))
        objs = [])"
proof -
  have none: "\<not> sagemaker_includes (config example_none) FalconLite2"
    "\<not> sagemaker_includes (config example_none) Zephyr7b"
    by (simp_all add: example_none_def sagemaker_includes_def Array_includes_def)
  from C2_one_descriptor_per_enabled_model [OF example_both_run [of "''Models''"]]
  have both: "\<exists>objs.
      stringValue (parameterProps (modelsParameter (expected_this example_cdk (config example_both)))) =
        JSON_stringify (JArray objs) \<and>
      length objs = 2 \<and>
      filter (\<lambda>v. map_of (properties_of v) ''name'' = Some (JString ''jumpstart-Amazon-FalconLite2''))
        objs =
        [JObject
        [(''name'', JString ''jumpstart-Amazon-FalconLite2''),
         (''endpoint'', JString ''jumpstart-Amazon-FalconLite2''),
         (''responseStreamingSupported'', JBoolean True),
         (''inputModalities'', JArray [JString ''TEXT'']),
         (''outputModalities'', JArray [JString ''TEXT'']),
         (''interface'', JString ''langchain''),
         (''ragSupported'', JBoolean True)]] \<and>
      filter (\<lambda>v. map_of (properties_of v) ''name'' =
                   Some (JString ''jumpstart-HuggingFaceH4-zephyr-7b-beta''))
        objs =
        [JObject
        [(''name'', JString ''jumpstart-HuggingFaceH4-zephyr-7b-beta''),
         (''endpoint'', JString ''jumpstart-HuggingFaceH4-zephyr-7b-beta''),
         (''responseStreamingSupported'', JBoolean False),
         (''inputModalities'', JArray [JString ''TEXT'']),
         (''outputModalities'', JArray [JString ''TEXT'']),
         (''interface'', JString ''langchain''),
         (''ragSupported'', JBoolean True)]]"
    by (simp add: example_both_includes example_both_models example_descriptors
        example_cdk_values numeral_2_eq_2)
  from C2_one_descriptor_per_enabled_model [OF example_none_run]
  obtain objs' where nothing:
    "JSON_stringify (JArray objs') = Some ''[]''" "length objs' = 0"
    by auto
  then have "JSON_stringify (JArray objs') = Some ''[]'' \<and> length objs' = 0 \<and>
      filter (\<lambda>v. map_of (properties_of v) ''name'' = Some (JString ''jumpstart-Amazon-FalconLite2''))
        objs' = []"
    by simp
  then have empty: "\<exists>objs. JSON_stringify (JArray objs) = Some ''[]'' \<and> length objs = 0 \<and>
      filter (\<lambda>v. map_of (properties_of v) ''name'' = Some (JString ''jumpstart-Amazon-FalconLite2''))
        objs = []"
    by blast
  have descs: "sagemaker_includes (config example_both) FalconLite2 \<and>
   sagemaker_includes (config example_both) Zephyr7b \<and>
   filter (\<lambda>d. name d = ''jumpstart-Amazon-FalconLite2'')
     (models (expected_this example_cdk (config example_both))) = [falcon_descriptor example_cdk] \<and>
   filter (\<lambda>d. name d = ''jumpstart-HuggingFaceH4-zephyr-7b-beta'')
     (models (expected_this example_cdk (config example_both))) = [zephyr_descriptor example_cdk] \<and>
   inputModalities (falcon_descriptor example_cdk) = [Text] \<and>
   interface (zephyr_descriptor example_cdk) = LangChain"
    by (simp add: example_both_includes example_both_models example_descriptors)
  from both descs none empty show ?thesis by blast
qed

text \<open>
  Claim C3. The endpoint name computed by split and join is the model identifier with
  every "/" and every "." replaced by "-", for every identifier; and each descriptor
  of a run carries the name "jumpstart-" followed by that replacement of the identifier
  of its own model, whatever the environment, the construct id and the properties are.
\<close>

theorem C3_name_derived_from_model_id:
  "(\<forall>MODEL_ID. ENDPOINT_NAME MODEL_ID = replace_separators MODEL_ID) \<and>
   (new_Models ext i props = Inr (this, tr) \<longrightarrow>
      (\<forall>m \<in> set (models this).
         (ownerId (endpoint m) = ''Falcon-Lite2'' \<and>
          name m = ''jumpstart-'' @ replace_separators FALCON_LITE_2_MODEL_ID) \<or>
         (ownerId (endpoint m) = ''Zephyr7b'' \<and>
          name m = ''jumpstart-'' @ replace_separators ZEPHYR_7B_MODEL_ID)))"
proof (intro conjI allI impI)
  fix MODEL_ID show "ENDPOINT_NAME MODEL_ID = replace_separators MODEL_ID"
    by (rule ENDPOINT_NAME_replace)
next
  assume "new_Models ext i props = Inr (this, tr)"
  then have "models this = expected_models ext (config props)"
    by (rule new_Models_models)
  then show "\<forall>m \<in> set (models this).
         (ownerId (endpoint m) = ''Falcon-Lite2'' \<and>
          name m = ''jumpstart-'' @ replace_separators FALCON_LITE_2_MODEL_ID) \<or>
         (ownerId (endpoint m) = ''Zephyr7b'' \<and>
          name m = ''jumpstart-'' @ replace_separators ZEPHYR_7B_MODEL_ID)"
    by (auto simp: expected_models_def falcon_descriptor_def zephyr_descriptor_def
        FALCON_LITE_2_ENDPOINT_NAME_def ZEPHYR_7B_ENDPOINT_NAME_def ENDPOINT_NAME_replace)
qed

theorem C3_name_derived_from_model_id_witness:
  "ENDPOINT_NAME ''Amazon/FalconLite2'' = ''Amazon-FalconLite2'' \<and>
   ENDPOINT_NAME ''HuggingFaceH4/zephyr-7b-beta'' = ''HuggingFaceH4-zephyr-7b-beta'' \<and>
   ENDPOINT_NAME ''meta.llama/v1.5'' = ''meta-llama-v1-5'' \<and>
   new_Models example_cdk ''Models'' example_both =
     Inr (expected_this example_cdk (config example_both),
          expected_calls example_cdk ''Models'' (config example_both)) \<and>
   map (\<lambda>m. (ownerId (endpoint m), name m))
     (models (expected_this example_cdk (config example_both))) =
     [(''Falcon-Lite2'', ''jumpstart-Amazon-FalconLite2''),
      (''Zephyr7b'', ''jumpstart-HuggingFaceH4-zephyr-7b-beta'')]"
proof -
  note c = C3_name_derived_from_model_id
    [of example_cdk "''Models''" example_both "expected_this example_cdk (config example_both)"
      "expected_calls example_cdk ''Models'' (config example_both)"]
  from c have "\<forall>MODEL_ID. ENDPOINT_NAME MODEL_ID = replace_separators MODEL_ID" by blast
  then have "ENDPOINT_NAME ''Amazon/FalconLite2'' = ''Amazon-FalconLite2''"
    "ENDPOINT_NAME ''HuggingFaceH4/zephyr-7b-beta'' = ''HuggingFaceH4-zephyr-7b-beta''"
    "ENDPOINT_NAME ''meta.llama/v1.5'' = ''meta-llama-v1-5''"
    by (simp_all add: replace_separators_def)
  moreover have "map (\<lambda>m. (ownerId (endpoint m), name m))
     (models (expected_this example_cdk (config example_both))) =
     [(''Falcon-Lite2'', ''jumpstart-Amazon-FalconLite2''),
      (''Zephyr7b'', ''jumpstart-HuggingFaceH4-zephyr-7b-beta'')]"
    using c by (simp add: example_both_run example_both_models example_descriptors)
  ultimately show ?thesis by (simp add: example_both_run)
qed

text \<open>
  Claim C4, amended. As stated the claim fails: with the schedule enabled and no
  supported model in the configuration the constructor creates no scheduler role (see
  the counterexample below). What holds: when the schedule is enabled and the models
  list is not empty, exactly one role, SchedulerRole, is created and the start schedules
  and the stop schedules are, in the order of the models list, one for each model, each
  with that model's endpoint and the scheduler role, the endpoints of the models being
  pairwise different; when the schedule is not enabled or the models list is empty, no
  role and no schedule is created.
\<close>

theorem C4_schedules_when_enabled_and_models:
  assumes "new_Models ext i props = Inr (this, tr)"
  shows "(models this \<noteq> [] \<and> sagemakerSchedule_enabled (config props) \<longrightarrow>
            roles_created tr =
              [(''SchedulerRole'',
                \<lparr>assumedBy = ServicePrincipal ''scheduler.amazonaws.com'',
                 description = ''Role for Scheduler to interact with SageMaker''\<rparr>)] \<and>
            start_schedules tr = map (\<lambda>m. (endpoint m, IamRole ''SchedulerRole'')) (models this) \<and>
            stop_schedules tr = map (\<lambda>m. (endpoint m, IamRole ''SchedulerRole'')) (models this) \<and>
            distinct (map endpoint (models this))) \<and>
         (\<not> (models this \<noteq> [] \<and> sagemakerSchedule_enabled (config props)) \<longrightarrow>
            roles_created tr = [] \<and> start_schedules tr = [] \<and> stop_schedules tr = [])"
  unfolding new_Models_result(3) [OF assms] new_Models_models [OF assms]
    expected_calls_observe scheduler_calls_observe
  by (simp add: expected_models_distinct)

theorem C4_counterexample:
  "sagemakerSchedule_enabled (config example_scheduled_without_models) \<and>
   new_Models example_cdk ''Models'' example_scheduled_without_models =
     Inr (\<lparr>models = [],
           modelsParameter = StringParameter ''ModelsParameter'' \<lparr>stringValue = Some ''[]''\<rparr>\<rparr>,
          [Construct_new ''Models'',
           StringParameter_new ''ModelsParameter'' \<lparr>stringValue = Some ''[]''\<rparr>]) \<and>
   roles_created
     [Construct_new ''Models'',
      StringParameter_new ''ModelsParameter'' \<lparr>stringValue = Some ''[]''\<rparr>] = []"
  by (simp add: constructor_defs example_cdk_def example_scheduled_without_models_def
      JSON_stringify_def observe)

theorem C4_schedules_when_enabled_and_models_witness:
  "models (expected_this example_cdk (config example_both)) \<noteq> [] \<and>
   sagemakerSchedule_enabled (config example_both) \<and>
   roles_created (expected_calls example_cdk ''Models'' (config example_both)) =
     [(''SchedulerRole'',
       \<lparr>assumedBy = ServicePrincipal ''scheduler.amazonaws.com'',
        description = ''Role for Scheduler to interact with SageMaker''\<rparr>)] \<and>
   start_schedules (expected_calls example_cdk ''Models'' (config example_both)) =
     [(\<lparr>ownerId = ''Falcon-Lite2'', endpointName = Some ''jumpstart-Amazon-FalconLite2''\<rparr>,
       IamRole ''SchedulerRole''),
      (\<lparr>ownerId = ''Zephyr7b'', endpointName = Some ''jumpstart-HuggingFaceH4-zephyr-7b-beta''\<rparr>,
       IamRole ''SchedulerRole'')] \<and>
   stop_schedules (expected_calls example_cdk ''Models'' (config example_both)) =
     [(\<lparr>ownerId = ''Falcon-Lite2'', endpointName = Some ''jumpstart-Amazon-FalconLite2''\<rparr>,
       IamRole ''SchedulerRole''),
      (\<lparr>ownerId = ''Zephyr7b'', endpointName = Some ''jumpstart-HuggingFaceH4-zephyr-7b-beta''\<rparr>,
       IamRole ''SchedulerRole'')] \<and>
   \<not> sagemakerSchedule_enabled (config example_zephyr) \<and>
   roles_created (expected_calls example_cdk ''Models'' (config example_zephyr)) = [] \<and>
   start_schedules (expected_calls example_cdk ''Models'' (config example_zephyr)) = [] \<and>
   stop_schedules (expected_calls example_cdk ''Models'' (config example_zephyr)) = []"
proof -
  have off: "\<not> sagemakerSchedule_enabled (config example_zephyr)"
    by (simp add: example_zephyr_def sagemakerSchedule_enabled_def)
  from C4_schedules_when_enabled_and_models [OF example_both_run [of "''Models''"]]
    C4_schedules_when_enabled_and_models [OF example_zephyr_run [of "''Models''"]]
  show ?thesis
    using off by (simp add: example_both_includes example_both_models example_descriptors)
qed

text \<open>
  Claim C5. The string value of the parameter is the JSON serialisation of the list
  \<open>this.models\<close>, in its order, each descriptor mapped to the object of its seven
  fields: the name, the name of the endpoint in place of the endpoint, the streaming
  flag, the values of the input and of the output modalities, the value of the
  interface, and \<open>ragSupported\<close>. The constructor creates this one string parameter and
  no other.
\<close>

theorem C5_parameter_serializes_models:
  assumes "new_Models ext i props = Inr (this, tr)"
  shows "\<exists>json.
           JSON_stringify
             (JArray
                (map (\<lambda>m. JObject
                           [(''name'', JString (name m)),
                            (''endpoint'',
                               (case endpointName (endpoint m) of None \<Rightarrow> JUndefined | Some n \<Rightarrow> JString n)),
                            (''responseStreamingSupported'', JBoolean (responseStreamingSupported m)),
                            (''inputModalities'',
                               JArray (map (\<lambda>x. case Modality_value ext x of
                                                   EnumString s \<Rightarrow> JString s | EnumNumber n \<Rightarrow> JNumber n)
                                         (inputModalities m))),
                            (''outputModalities'',
                               JArray (map (\<lambda>x. case Modality_value ext x of
                                                   EnumString s \<Rightarrow> JString s | EnumNumber n \<Rightarrow> JNumber n)
                                         (outputModalities m))),
                            (''interface'',
                               (case ModelInterface_value ext (interface m) of
                                  EnumString s \<Rightarrow> JString s | EnumNumber n \<Rightarrow> JNumber n)),
                            (''ragSupported'', JBoolean (ragSupported m))])
                   (models this))) = Some json \<and>
           JSON_stringify (JArray (map (model_object ext) (models this))) = Some json \<and>
           modelsParameter this = StringParameter ''ModelsParameter'' \<lparr>stringValue = Some json\<rparr> \<and>
           string_parameters tr = [(''ModelsParameter'', \<lparr>stringValue = Some json\<rparr>)]"
proof -
  have projection: "(\<lambda>m. JObject
             [(''name'', JString (name m)),
              (''endpoint'',
                 (case endpointName (endpoint m) of None \<Rightarrow> JUndefined | Some n \<Rightarrow> JString n)),
              (''responseStreamingSupported'', JBoolean (responseStreamingSupported m)),
              (''inputModalities'',
                 JArray (map (\<lambda>x. case Modality_value ext x of
                                     EnumString s \<Rightarrow> JString s | EnumNumber n \<Rightarrow> JNumber n)
                           (inputModalities m))),
              (''outputModalities'',
                 JArray (map (\<lambda>x. case Modality_value ext x of
                                     EnumString s \<Rightarrow> JString s | EnumNumber n \<Rightarrow> JNumber n)
                           (outputModalities m))),
              (''interface'',
                 (case ModelInterface_value ext (interface m) of
                    EnumString s \<Rightarrow> JString s | EnumNumber n \<Rightarrow> JNumber n)),
              (''ragSupported'', JBoolean (ragSupported m))]) = model_object ext"
    by (simp add: fun_eq_iff model_object_fields)
  obtain json where json: "JSON_stringify (JArray (map (model_object ext) (models this))) = Some json"
    by (simp add: JSON_stringify_def)
  have "modelsParameter this =
      StringParameter ''ModelsParameter''
        \<lparr>stringValue = JSON_stringify (JArray (map (model_object ext) (models this)))\<rparr>"
    using new_Models_result(2) [OF assms] by (simp add: expected_this_def parameter_props_def)
  moreover have "string_parameters tr =
      [(''ModelsParameter'',
        \<lparr>stringValue = JSON_stringify (JArray (map (model_object ext) (models this)))\<rparr>)]"
    by (simp add: new_Models_result(3) [OF assms] new_Models_models [OF assms]
        expected_calls_observe parameter_props_def)
  ultimately show ?thesis
    unfolding projection using json by simp
qed

theorem C5_parameter_serializes_models_witness:
  "new_Models example_cdk ''Models'' example_zephyr =
     Inr (expected_this example_cdk (config example_zephyr),
          expected_calls example_cdk ''Models'' (config example_zephyr)) \<and>
   models (expected_this example_cdk (config example_zephyr)) = [zephyr_descriptor example_cdk] \<and>
   (\<exists>json.
      JSON_stringify
        (JArray
           [JObject
            [(''name'', JString ''jumpstart-HuggingFaceH4-zephyr-7b-beta''),
             (''endpoint'', JString ''jumpstart-HuggingFaceH4-zephyr-7b-beta''),
             (''responseStreamingSupported'', JBoolean False),
             (''inputModalities'', JArray [JString ''TEXT'']),
             (''outputModalities'', JArray [JString ''TEXT'']),
             (''interface'', JString ''langchain''),
             (''ragSupported'', JBoolean True)]]) = Some json \<and>
      modelsParameter (expected_this example_cdk (config example_zephyr)) =
        StringParameter ''ModelsParameter'' \<lparr>stringValue = Some json\<rparr> \<and>
      string_parameters (expected_calls example_cdk ''Models'' (config example_zephyr)) =
        [(''ModelsParameter'', \<lparr>stringValue = Some json\<rparr>)])"
proof -
  have m: "models (expected_this example_cdk (config example_zephyr)) =
      [zephyr_descriptor example_cdk]"
    by (simp add: expected_this_def expected_models_def example_zephyr_def
        sagemaker_includes_def Array_includes_def)
  from C5_parameter_serializes_models [OF example_zephyr_run [of "''Models''"]]
  show ?thesis
    by (simp add: m example_zephyr_run model_object_fields)
       (simp add: example_descriptors example_cdk_values)
qed

text \<open>
  Claim C6. Two runs of the constructor on equal configurations that both return give
  equal models lists and equal parameter string values. The two runs may differ in
  the construct id, in the \<open>shared\<close> property and in which calls the environment would
  refuse; the environment has to give the endpoints the same names and the enumeration
  members the same values in both.
\<close>

theorem C6_construction_deterministic:
  assumes "new_Models ext1 i1 props1 = Inr (this1, tr1)"
    and "new_Models ext2 i2 props2 = Inr (this2, tr2)"
    and "config props1 = config props2"
    and "cfnEndpointName ext1 = cfnEndpointName ext2"
    and "Modality_value ext1 = Modality_value ext2"
    and "ModelInterface_value ext1 = ModelInterface_value ext2"
  shows "models this1 = models this2 \<and>
         stringValue (parameterProps (modelsParameter this1)) =
           stringValue (parameterProps (modelsParameter this2))"
proof -
  have "expected_models ext1 (config props1) = expected_models ext2 (config props2)"
    using assms(3,4) by (intro expected_models_cong) simp_all
  then have m: "models this1 = models this2"
    by (simp add: new_Models_models [OF assms(1)] new_Models_models [OF assms(2)])
  with new_Models_parameter [OF assms(1)] new_Models_parameter [OF assms(2)]
    model_object_cong [OF assms(5,6)]
  show ?thesis by simp
qed

theorem C6_construction_deterministic_witness:
  "new_Models example_cdk ''Models'' example_both =
     Inr (expected_this example_cdk (config example_both),
          expected_calls example_cdk ''Models'' (config example_both)) \<and>
   new_Models (example_cdk\<lparr>raises := (\<lambda>tr c. if length tr > 40 then Some (Error ''too many'') else None)\<rparr>)
       ''Other'' \<lparr>config = config example_both, shared = True\<rparr> =
     Inr (expected_this example_cdk (config example_both),
          expected_calls example_cdk ''Other'' (config example_both)) \<and>
   config example_both = config \<lparr>config = config example_both, shared = True\<rparr> \<and>
   models (expected_this example_cdk (config example_both)) =
     [falcon_descriptor example_cdk, zephyr_descriptor example_cdk]"
proof -
  let ?ext2 = "example_cdk\<lparr>raises := (\<lambda>tr c. if length tr > 40 then Some (Error ''too many'') else None)\<rparr>"
  have r2: "new_Models ?ext2 ''Other'' \<lparr>config = config example_both, shared = True\<rparr> =
     Inr (expected_this example_cdk (config example_both),
          expected_calls example_cdk ''Other'' (config example_both))"
    by (simp add: constructor_defs example_cdk_def example_both_def expected_this_def
      expected_calls_def expected_models_def secret_calls_def endpoint_calls_def
      scheduler_calls_def parameter_props_def falcon_descriptor_def zephyr_descriptor_def
      Falcon_Lite2_props_def Zephyr7b_props_def suppression_call_def model_object_def)
  have "cfnEndpointName example_cdk = cfnEndpointName ?ext2"
    "Modality_value example_cdk = Modality_value ?ext2"
    "ModelInterface_value example_cdk = ModelInterface_value ?ext2"
    "config example_both = config \<lparr>config = config example_both, shared = True\<rparr>"
    by simp_all
  from C6_construction_deterministic [OF example_both_run [of "''Models''"] r2 this(4) this(1-3)]
  show ?thesis by (simp add: example_both_run r2 example_both_models)
qed

text \<open>
  Claim C7. The constructor handles no error. When it returns, it made exactly the calls
  of its configuration and every one went through: no call that threw was swallowed.
  When it throws, the error is the very value thrown by one of the calls it sets out to
  make, the calls before that one having gone through, or, when no call threw, it is the
  TypeError of the language for reading a property of an undefined \<open>llms\<close>. With \<open>llms\<close>
  defined the constructor throws the value of the first of its calls that throws, and
  returns when none does; with \<open>llms\<close> undefined it throws what the call of \<open>super\<close>
  throws, and the TypeError when that call goes through.
\<close>

theorem C7_errors_propagate_unchanged:
  "(\<forall>this tr. new_Models ext i props = Inr (this, tr) \<longrightarrow>
      tr = constructor_calls ext i (config props) \<and> accepted ext tr) \<and>
   (\<forall>e. new_Models ext i props = Inl e \<longrightarrow>
      (llms (config props) = None \<and> raises ext [] (Construct_new i) = None \<and>
       e = TypeError ''Cannot read properties of undefined (reading 'huggingfaceApiSecretArn')'') \<or>
      (\<exists>tr c rest. constructor_calls ext i (config props) = tr @ c # rest \<and>
         accepted ext tr \<and> raises ext tr c = Some e)) \<and>
   (llms (config props) \<noteq> None \<longrightarrow>
      new_Models ext i props =
        (case first_throw ext [] (expected_calls ext i (config props)) of
           Some e \<Rightarrow> Inl e
         | None \<Rightarrow> Inr (expected_this ext (config props), expected_calls ext i (config props)))) \<and>
   (llms (config props) = None \<longrightarrow>
      new_Models ext i props =
        (case raises ext [] (Construct_new i) of
           Some e \<Rightarrow> Inl e
         | None \<Rightarrow> Inl (TypeError ''Cannot read properties of undefined (reading 'huggingfaceApiSecretArn')'')))"
proof (intro conjI allI impI)
  fix this tr assume r: "new_Models ext i props = Inr (this, tr)"
  from new_Models_result(1,3) [OF r]
  show "tr = constructor_calls ext i (config props)"
    by (simp add: constructor_calls_defined)
  from r show "accepted ext tr" by (rule new_Models_result(4))
next
  assume "llms (config props) \<noteq> None"
  then show "new_Models ext i props =
        (case first_throw ext [] (expected_calls ext i (config props)) of
           Some e \<Rightarrow> Inl e
         | None \<Rightarrow> Inr (expected_this ext (config props), expected_calls ext i (config props)))"
    by (simp add: new_Models_def Models_constructor_run run_def cong: option.case_cong)
next
  assume "llms (config props) = None"
  then show "new_Models ext i props =
        (case raises ext [] (Construct_new i) of
           Some e \<Rightarrow> Inl e
         | None \<Rightarrow> Inl (TypeError ''Cannot read properties of undefined (reading 'huggingfaceApiSecretArn')''))"
    by (rule new_Models_undefined_llms)
next
  fix e assume e: "new_Models ext i props = Inl e"
  show "(llms (config props) = None \<and> raises ext [] (Construct_new i) = None \<and>
       e = TypeError ''Cannot read properties of undefined (reading 'huggingfaceApiSecretArn')'') \<or>
      (\<exists>tr c rest. constructor_calls ext i (config props) = tr @ c # rest \<and>
         accepted ext tr \<and> raises ext tr c = Some e)"
  proof (cases "llms (config props)")
    case None
    note undefined_llms = new_Models_undefined_llms [OF None, of ext i]
    show ?thesis
    proof (cases "raises ext [] (Construct_new i)")
      case no_throw: None
      have "new_Models ext i props = Inl (TypeError ''Cannot read properties of undefined (reading 'huggingfaceApiSecretArn')'')"
        unfolding undefined_llms no_throw by simp
      with e have "e = TypeError ''Cannot read properties of undefined (reading 'huggingfaceApiSecretArn')''" by simp
      with None no_throw show ?thesis by blast
    next
      case (Some e')
      have "new_Models ext i props = Inl e'"
        unfolding undefined_llms Some by simp
      with e have "e' = e" by simp
      with Some None have "constructor_calls ext i (config props) = [] @ Construct_new i # [] \<and>
          accepted ext [] \<and> raises ext [] (Construct_new i) = Some e"
        by (simp add: accepted_def constructor_calls_def)
      then show ?thesis by blast
    qed
  next
    case (Some l)
    then have defined: "llms (config props) \<noteq> None" by simp
    from Models_constructor_run [OF this, of ext i] e
    have "run ext (expected_calls ext i (config props)) (expected_this ext (config props)) [] = Inl e"
      by (simp add: new_Models_def)
    then have "first_throw ext [] (expected_calls ext i (config props)) = Some e"
      by (simp add: run_def split: option.splits)
    from first_throw_Some [OF this] obtain xs c rest where
      "expected_calls ext i (config props) = xs @ c # rest"
      "first_throw ext [] xs = None" "raises ext ([] @ xs) c = Some e"
      by blast
    then have "constructor_calls ext i (config props) = xs @ c # rest \<and>
        accepted ext xs \<and> raises ext xs c = Some e"
      by (simp add: accepted_def constructor_calls_defined [OF defined])
    then show ?thesis by blast
  qed
qed

theorem C7_errors_propagate_unchanged_witness:
  "new_Models example_cdk ''Models'' example_both =
     Inr (expected_this example_cdk (config example_both),
          expected_calls example_cdk ''Models'' (config example_both)) \<and>
   constructor_calls example_cdk ''Models'' (config example_both) =
     expected_calls example_cdk ''Models'' (config example_both) \<and>
   accepted example_cdk (expected_calls example_cdk ''Models'' (config example_both)) \<and>
   llms (config example_both) \<noteq> None \<and>
   first_throw example_failing_cdk []
     (expected_calls example_failing_cdk ''Models'' (config example_both)) =
     Some (Error ''ARN is not valid'') \<and>
   new_Models example_failing_cdk ''Models'' example_both = Inl (Error ''ARN is not valid'') \<and>
   (\<exists>tr c rest.
      constructor_calls example_failing_cdk ''Models'' (config example_both) = tr @ c # rest \<and>
      accepted example_failing_cdk tr \<and>
      raises example_failing_cdk tr c = Some (Error ''ARN is not valid'')) \<and>
   llms (config example_without_llms) = None \<and>
   raises example_cdk [] (Construct_new ''Models'') = None \<and>
   new_Models example_cdk ''Models'' example_without_llms = Inl (TypeError ''Cannot read properties of undefined (reading 'huggingfaceApiSecretArn')'') \<and>
   raises example_refusing_cdk [] (Construct_new ''Models'') =
     Some (Error ''There is already a Construct with this name'') \<and>
   new_Models example_refusing_cdk ''Models'' example_without_llms =
     Inl (Error ''There is already a Construct with this name'')"
proof -
  note both = C7_errors_propagate_unchanged [of example_cdk "''Models''" example_both]
  note failing = C7_errors_propagate_unchanged [of example_failing_cdk "''Models''" example_both]
  note without = C7_errors_propagate_unchanged [of example_cdk "''Models''" example_without_llms]
  note refusing =
    C7_errors_propagate_unchanged [of example_refusing_cdk "''Models''" example_without_llms]
  have defined: "llms (config example_both) \<noteq> None"
    by (simp add: example_both_def)
  have undefined_llms: "llms (config example_without_llms) = None"
    by (simp add: example_without_llms_def)
  from both example_both_run [of "''Models''"]
  have ok: "constructor_calls example_cdk ''Models'' (config example_both) =
      expected_calls example_cdk ''Models'' (config example_both) \<and>
    accepted example_cdk (expected_calls example_cdk ''Models'' (config example_both))"
    by auto
  have first: "first_throw example_failing_cdk []
     (expected_calls example_failing_cdk ''Models'' (config example_both)) =
     Some (Error ''ARN is not valid'')"
    by (simp add: expected_calls_def secret_calls_def example_both_def example_failing_cdk_def
        example_cdk_def)
  from failing defined first
  have thrown: "new_Models example_failing_cdk ''Models'' example_both =
      Inl (Error ''ARN is not valid'')"
    by simp
  from failing thrown defined
  have cause: "\<exists>tr c rest.
      constructor_calls example_failing_cdk ''Models'' (config example_both) = tr @ c # rest \<and>
      accepted example_failing_cdk tr \<and>
      raises example_failing_cdk tr c = Some (Error ''ARN is not valid'')"
    by blast
  have quiet: "raises example_cdk [] (Construct_new ''Models'') = None"
    by (simp add: example_cdk_def)
  from without undefined_llms quiet
  have type_error: "new_Models example_cdk ''Models'' example_without_llms = Inl (TypeError ''Cannot read properties of undefined (reading 'huggingfaceApiSecretArn')'')"
    by simp
  have refused: "raises example_refusing_cdk [] (Construct_new ''Models'') =
     Some (Error ''There is already a Construct with this name'')"
    by (simp add: example_refusing_cdk_def)
  from refusing undefined_llms refused
  have propagated: "new_Models example_refusing_cdk ''Models'' example_without_llms =
     Inl (Error ''There is already a Construct with this name'')"
    by simp
  show ?thesis
    using example_both_run [of "''Models''"] ok defined first thrown cause undefined_llms quiet
      type_error refused propagated
    by blast
qed



text \<open>
  Claim C9. With neither FalconLite2 nor Zephyr7b in the configuration, \<open>this.models\<close>
  is empty, the parameter's string value is "[]", and no role and no start or stop
  schedule is created, whether or not the schedule is enabled.
\<close>

theorem C9_no_models_no_schedules:
  assumes "new_Models ext i props = Inr (this, tr)"
    and "\<not> sagemaker_includes (config props) FalconLite2"
    and "\<not> sagemaker_includes (config props) Zephyr7b"
  shows "models this = [] \<and>
         stringValue (parameterProps (modelsParameter this)) = Some ''[]'' \<and>
         roles_created tr = [] \<and> start_schedules tr = [] \<and> stop_schedules tr = []"
proof -
  have m: "models this = []"
    using assms(2,3) by (simp add: new_Models_models [OF assms(1)] expected_models_def)
  have e: "expected_models ext (config props) = []"
    using assms(2,3) by (simp add: expected_models_def)
  show ?thesis
    using new_Models_parameter [OF assms(1)]
    unfolding new_Models_result(3) [OF assms(1)] expected_calls_observe scheduler_calls_observe
    by (simp add: m e JSON_stringify_def)
qed

theorem C9_no_models_no_schedules_witness:
  "new_Models example_cdk ''Models'' example_none =
     Inr (\<lparr>models = [],
           modelsParameter = StringParameter ''ModelsParameter'' \<lparr>stringValue = Some ''[]''\<rparr>\<rparr>,
          [Construct_new ''Models'',
           StringParameter_new ''ModelsParameter'' \<lparr>stringValue = Some ''[]''\<rparr>]) \<and>
   \<not> sagemaker_includes (config example_none) FalconLite2 \<and>
   \<not> sagemaker_includes (config example_none) Zephyr7b \<and>
   sagemakerSchedule_enabled (config example_none) \<and>
   roles_created
     [Construct_new ''Models'',
      StringParameter_new ''ModelsParameter'' \<lparr>stringValue = Some ''[]''\<rparr>] = [] \<and>
   start_schedules
     [Construct_new ''Models'',
      StringParameter_new ''ModelsParameter'' \<lparr>stringValue = Some ''[]''\<rparr>] = [] \<and>
   stop_schedules
     [Construct_new ''Models'',
      StringParameter_new ''ModelsParameter'' \<lparr>stringValue = Some ''[]''\<rparr>] = []"
proof -
  have none: "\<not> sagemaker_includes (config example_none) FalconLite2"
    "\<not> sagemaker_includes (config example_none) Zephyr7b"
    "sagemakerSchedule_enabled (config example_none)"
    by (simp_all add: example_none_def sagemaker_includes_def Array_includes_def
        sagemakerSchedule_enabled_def)
  from C9_no_models_no_schedules [OF example_none_run none(1,2)]
  show ?thesis using none by (simp add: example_none_run)
qed

text \<open>
  Claim C10. Two configurations that differ only in \<open>huggingfaceApiSecretArn\<close> give,
  when both runs return, equal models lists and equal parameter string values.
\<close>

theorem C10_secret_arn_does_not_affect_output:
  assumes "new_Models ext i props1 = Inr (this1, tr1)"
    and "new_Models ext i props2 = Inr (this2, tr2)"
    and "config props2 =
           (config props1)\<lparr>llms :=
              map_option (\<lambda>l. l\<lparr>huggingfaceApiSecretArn := arn\<rparr>) (llms (config props1))\<rparr>"
  shows "models this1 = models this2 \<and>
         stringValue (parameterProps (modelsParameter this1)) =
           stringValue (parameterProps (modelsParameter this2))"
proof -
  have "sagemaker_includes (config props1) = sagemaker_includes (config props2)"
    by (simp add: assms(3) fun_eq_iff sagemaker_includes_def split: option.splits)
  then have "expected_models ext (config props1) = expected_models ext (config props2)"
    by (intro expected_models_cong) simp_all
  then have "models this1 = models this2"
    by (simp add: new_Models_models [OF assms(1)] new_Models_models [OF assms(2)])
  with new_Models_parameter [OF assms(1)] new_Models_parameter [OF assms(2)]
  show ?thesis by simp
qed

theorem C10_secret_arn_does_not_affect_output_witness:
  "new_Models example_cdk ''Models'' example_both =
     Inr (expected_this example_cdk (config example_both),
          expected_calls example_cdk ''Models'' (config example_both)) \<and>
   new_Models example_cdk ''Models'' example_both_other_secret =
     Inr (expected_this example_cdk (config example_both_other_secret),
          expected_calls example_cdk ''Models'' (config example_both_other_secret)) \<and>
   config example_both_other_secret =
     (config example_both)\<lparr>llms :=
        map_option (\<lambda>l. l\<lparr>huggingfaceApiSecretArn := None\<rparr>) (llms (config example_both))\<rparr> \<and>
   huggingfaceApiSecretArn (the (llms (config example_both))) \<noteq>
     huggingfaceApiSecretArn (the (llms (config example_both_other_secret))) \<and>
   models (expected_this example_cdk (config example_both)) =
     models (expected_this example_cdk (config example_both_other_secret)) \<and>
   stringValue (parameterProps (modelsParameter (expected_this example_cdk (config example_both)))) =
     stringValue (parameterProps
       (modelsParameter (expected_this example_cdk (config example_both_other_secret))))"
proof -
  have d: "config example_both_other_secret =
     (config example_both)\<lparr>llms :=
        map_option (\<lambda>l. l\<lparr>huggingfaceApiSecretArn := None\<rparr>) (llms (config example_both))\<rparr>"
    "huggingfaceApiSecretArn (the (llms (config example_both))) \<noteq>
     huggingfaceApiSecretArn (the (llms (config example_both_other_secret)))"
    by (simp_all add: example_both_def example_both_other_secret_def)
  from C10_secret_arn_does_not_affect_output
    [OF example_both_run [of "''Models''"] example_both_other_secret_run [of "''Models''"] d(1)]
  show ?thesis using d by (simp add: example_both_run example_both_other_secret_run)
qed

end
